theory Spec2Isabelle
  imports Main "HOL-Library.Sublist"
begin

section \<open>Go values shared by the embedded functions\<close>

text \<open>
  A Go \<open>error\<close> value. The sources compare one error by identity
  (\<open>err == authorizer.ErrNoStandardParts\<close>) and read the text of every other one
  through \<open>err.Error()\<close>. The sentinel is declared in the authorizer package, outside
  the embedded files, so its text is carried by the value; every error that is not the
  sentinel is an \<open>OtherError\<close>, whatever its text.
\<close>

datatype error = ErrNoStandardParts string | OtherError string

fun Error :: "error \<Rightarrow> string" where
  "Error (ErrNoStandardParts t) = t"
| "Error (OtherError t) = t"

text \<open>\<open>strings.Join(elems, sep)\<close> of the Go standard library.\<close>

fun strings_Join :: "string list \<Rightarrow> string \<Rightarrow> string" where
  "strings_Join [] sep = []"
| "strings_Join [a] sep = a"
| "strings_Join (a # b # rest) sep = a @ sep @ strings_Join (b # rest) sep"

text \<open>\<open>strings.HasPrefix(s, prefix)\<close> of the Go standard library.\<close>

fun strings_HasPrefix :: "string \<Rightarrow> string \<Rightarrow> bool" where
  "strings_HasPrefix s [] = True"
| "strings_HasPrefix [] (p # ps) = False"
| "strings_HasPrefix (c # cs) (p # ps) = (c = p \<and> strings_HasPrefix cs ps)"

text \<open>
  \<open>strings.Contains(s, substr)\<close> of the Go standard library, by scanning \<open>s\<close> for a
  position where \<open>substr\<close> starts.
\<close>

fun strings_Contains :: "string \<Rightarrow> string \<Rightarrow> bool" where
  "strings_Contains [] substr = (substr = [])"
| "strings_Contains (c # cs) substr =
     (strings_HasPrefix (c # cs) substr \<or> strings_Contains cs substr)"

section \<open>pkg/api/latest: versions and their interfaces\<close>

text \<open>\<open>var Versions = []string{"v1beta1"}\<close> (latest.go, line 28).\<close>

definition Versions :: "string list" where
  "Versions = [''v1beta1'']"

text \<open>
  \<open>kmeta.VersionInterfaces\<close>: the codec, the object convertor and the metadata accessor
  of one version. The three values the source stores (\<open>v1beta1.Codec\<close>, \<open>api.Scheme\<close>
  and the package's \<open>accessor\<close>) come from other packages and are parameters here.
\<close>

record ('c, 'o, 'm) VersionInterfaces =
  Codec :: 'c
  ObjectConvertor :: 'o
  MetadataAccessor :: 'm

text \<open>
  \<open>InterfacesFor\<close> (latest.go, lines 56-67): a switch on the version string; the
  default branch returns
  \<open>fmt.Errorf("unsupported storage version: %s (valid: %s)", version, strings.Join(Versions, ", "))\<close>.
\<close>

definition InterfacesFor ::
  "'c \<Rightarrow> 'o \<Rightarrow> 'm \<Rightarrow> string \<Rightarrow> error + ('c, 'o, 'm) VersionInterfaces" where
  "InterfacesFor v1beta1_Codec api_Scheme accessor version =
     (if version = ''v1beta1''
      then Inr \<lparr>Codec = v1beta1_Codec, ObjectConvertor = api_Scheme,
                MetadataAccessor = accessor\<rparr>
      else Inl (OtherError (''unsupported storage version: '' @ version @ '' (valid: '' @
                  strings_Join Versions '', '' @ '')'')))"

section \<open>pkg/api/latest: registration of the REST scopes\<close>

text \<open>
  The scopes of \<open>kmeta\<close> that \<open>init\<close> uses. A Go variable of the interface type
  \<open>kmeta.RESTScope\<close> may be nil (the value a map lookup gives for a missing key), so a
  scope read from a map is an option.
\<close>

datatype RESTScope = RESTScopeRoot | RESTScopeNamespaceLegacy | RESTScopeNamespace

text \<open>
  One call \<open>originMapper.Add(scope, kind, version, mixedCase)\<close>. The mapper itself
  (\<open>kmeta.DefaultRESTMapper\<close>) is library code; the model keeps the calls it received,
  oldest first.
\<close>

record Registration =
  regScope :: "RESTScope option"
  regKind :: string
  regVersion :: string
  regMixedCase :: bool

definition Add ::
  "RESTScope option \<Rightarrow> string \<Rightarrow> string \<Rightarrow> bool \<Rightarrow> Registration list \<Rightarrow> Registration list" where
  "Add scope kind version mixedCase originMapper =
     originMapper @ [\<lparr>regScope = scope, regKind = kind, regVersion = version,
                       regMixedCase = mixedCase\<rparr>]"

text \<open>The three map literals of \<open>init\<close> (latest.go, lines 110-132).\<close>

definition versionMixedCase :: "string \<rightharpoonup> bool" where
  "versionMixedCase = map_of [(''v1beta1'', True)]"

definition versionToNamespaceScope :: "string \<rightharpoonup> RESTScope" where
  "versionToNamespaceScope = map_of [(''v1beta1'', RESTScopeNamespaceLegacy)]"

definition kindToRootScope :: "string \<rightharpoonup> bool" where
  "kindToRootScope = map_of
     [(''Project'', True),
      (''User'', True),
      (''Identity'', True),
      (''UserIdentityMapping'', True),
      (''OAuthAccessToken'', True),
      (''OAuthAuthorizeToken'', True),
      (''OAuthClient'', True),
      (''OAuthClientAuthorization'', True)]"

text \<open>
  The inner loop of \<open>init\<close> (lines 136-147) over the kinds of one version. The kinds are
  the keys of \<open>api.Scheme.KnownTypes(version)\<close>, a map of another package that Go
  iterates in no fixed order: the model takes them as a list in any order.
\<close>

fun init_kinds :: "string \<Rightarrow> string list \<Rightarrow> Registration list \<Rightarrow> Registration list" where
  "init_kinds version [] originMapper = originMapper"
| "init_kinds version (kind # kinds) originMapper =
     (let mixedCase = (case versionMixedCase version of Some b \<Rightarrow> b | None \<Rightarrow> False);
          scope = versionToNamespaceScope version;
          scope = (case kindToRootScope kind of Some _ \<Rightarrow> Some RESTScopeRoot | None \<Rightarrow> scope)
      in init_kinds version kinds (Add scope kind version mixedCase originMapper))"

text \<open>The outer loop of \<open>init\<close> (line 135) over the versions.\<close>

fun init_versions ::
  "(string \<Rightarrow> string list) \<Rightarrow> string list \<Rightarrow> Registration list \<Rightarrow> Registration list" where
  "init_versions KnownTypes [] originMapper = originMapper"
| "init_versions KnownTypes (version # versions) originMapper =
     init_versions KnownTypes versions
       (init_kinds version (KnownTypes version) originMapper)"

text \<open>
  \<open>init\<close> (lines 93-153): the origin mapper starts empty, receives the registrations of
  every version in \<open>Versions\<close>, and is placed before the Kubernetes mapper in the
  \<open>MultiRESTMapper\<close> assigned to \<open>RESTMapper\<close>.
\<close>

definition init :: "(string \<Rightarrow> string list) \<Rightarrow> Registration list \<Rightarrow> Registration list list" where
  "init KnownTypes kubeMapper =
     (let originMapper = [];
          versions = Versions;
          originMapper = init_versions KnownTypes versions originMapper
      in [originMapper, kubeMapper])"

text \<open>A schema with the two kinds named by the end-to-end example of the specification.\<close>

definition exampleKnownTypes :: "string \<Rightarrow> string list" where
  "exampleKnownTypes version = (if version = ''v1beta1'' then [''Build'', ''Project''] else [])"

section \<open>net/http and fmt: what the handlers of the master use\<close>

text \<open>
  An \<open>*http.Request\<close>: the identity of the pointer (the key of the request context map)
  and the field the embedded code reads.
\<close>

record Request =
  reqPtr :: nat
  RequestURI :: string

text \<open>
  The \<open>http.ResponseWriter\<close> that net/http hands to a handler. \<open>WriteHeader\<close> sets the
  status once: a later call leaves the response as it is. \<open>Write\<close> sends the header
  with status 200 when none has been sent and appends the bytes to the body.
\<close>

record ResponseWriter =
  wroteHeader :: bool
  status :: nat
  body :: string

definition WriteHeader :: "nat \<Rightarrow> ResponseWriter \<Rightarrow> ResponseWriter" where
  "WriteHeader code w = (if wroteHeader w then w else w\<lparr>wroteHeader := True, status := code\<rparr>)"

definition Write :: "string \<Rightarrow> ResponseWriter \<Rightarrow> ResponseWriter" where
  "Write b w = (let w1 = (if wroteHeader w then w else WriteHeader 200 w)
                in w1\<lparr>body := body w1 @ b\<rparr>)"

definition StatusForbidden :: nat where
  "StatusForbidden = 403"

text \<open>
  The verb \<open>%q\<close> of \<open>fmt\<close> on a string is \<open>strconv.Quote\<close>: the string between double
  quotes, with the double quote and the backslash written after a backslash, the other
  printable ASCII characters written as they are, and the remaining ASCII characters
  written as the escapes \<open>\a \b \f \n \r \t \v\<close>, as \<open>\x\<close> and two hexadecimal digits
  below the space, and as \<open>\u007f\<close> for DEL. From the first byte outside ASCII on, the
  result depends on UTF-8 decoding and on the Unicode tables of the library; the model
  takes that rendering of the rest of the string as the parameter \<open>nonASCII\<close>.
\<close>

definition lowerhex :: "nat \<Rightarrow> char" where
  "lowerhex n = ''0123456789abcdef'' ! (n mod 16)"

definition quoteASCII :: "char \<Rightarrow> string" where
  "quoteASCII c =
     (let r = (of_char c :: nat) in
      if c = CHR 0x22 \<or> c = CHR 0x5C then [CHR 0x5C, c]
      else if 0x20 \<le> r \<and> r \<le> 0x7E then [c]
      else if r = 7 then [CHR 0x5C, CHR ''a'']
      else if r = 8 then [CHR 0x5C, CHR ''b'']
      else if r = 12 then [CHR 0x5C, CHR ''f'']
      else if r = 10 then [CHR 0x5C, CHR ''n'']
      else if r = 13 then [CHR 0x5C, CHR ''r'']
      else if r = 9 then [CHR 0x5C, CHR ''t'']
      else if r = 11 then [CHR 0x5C, CHR ''v'']
      else if r < 0x20 then [CHR 0x5C, CHR ''x'', lowerhex (r div 16), lowerhex r]
      else [CHR 0x5C, CHR ''u'', CHR ''0'', CHR ''0'', lowerhex (r div 16), lowerhex r])"

fun quoteWith :: "(string \<Rightarrow> string) \<Rightarrow> string \<Rightarrow> string" where
  "quoteWith nonASCII [] = []"
| "quoteWith nonASCII (c # s) =
     (if (of_char c :: nat) < 0x80 then quoteASCII c @ quoteWith nonASCII s
      else nonASCII (c # s))"

definition strconv_Quote :: "(string \<Rightarrow> string) \<Rightarrow> string \<Rightarrow> string" where
  "strconv_Quote nonASCII s = [CHR 0x22] @ quoteWith nonASCII s @ [CHR 0x22]"


section \<open>pkg/cmd/server/origin: the authorization filter\<close>

text \<open>
  \<open>forbidden\<close> (package origin in latest.go, lines 676-680): status 403, then
  \<open>fmt.Fprintf(w, "Forbidden: %q %s", req.RequestURI, reason)\<close>, which formats the text
  and writes it with one call of \<open>w.Write\<close>. The glog line is not part of the model.
\<close>

definition forbidden :: "(string \<Rightarrow> string) \<Rightarrow> string \<Rightarrow> ResponseWriter \<Rightarrow> Request \<Rightarrow> ResponseWriter" where
  "forbidden nonASCII reason w req =
     Write (''Forbidden: '' @ strconv_Quote nonASCII (RequestURI req) @ '' '' @ reason)
       (WriteHeader StatusForbidden w)"

text \<open>
  The collaborators of the filter live in packages outside the embedded files and are
  parameters. Each may read and change the state \<open>'s\<close> of the rest of the process (the
  request context map, the policy store), which is threaded through the calls in the
  order the source makes them.
  \<^item> \<open>GetAttributes\<close> is \<open>authorizationAttributeBuilder.GetAttributes(req)\<close>: attributes
    (nil is \<open>None\<close>) and an error (nil is \<open>None\<close>);
  \<^item> \<open>Authorize\<close> is \<open>authz.Authorize(attributes)\<close>: the verdict, the reason, an error;
  \<^item> a handler is \<open>ServeHTTP(w, req)\<close>.
\<close>

type_synonym ('a, 's) GetAttributes = "Request \<Rightarrow> 's \<Rightarrow> ('a option \<times> error option) \<times> 's"

type_synonym ('a, 's) Authorize = "'a option \<Rightarrow> 's \<Rightarrow> (bool \<times> string \<times> error option) \<times> 's"

type_synonym 's Handler = "Request \<Rightarrow> ResponseWriter \<times> 's \<Rightarrow> ResponseWriter \<times> 's"

text \<open>
  The handler function returned by \<open>authorizationFilter\<close> (package origin in latest.go,
  lines 640-672), branch by branch in the order of the source. The builder and the
  authorizer are the two collaborators that lines 637-638 construct.
\<close>

definition authorizationFilter ::
  "(string \<Rightarrow> string) \<Rightarrow> ('a, 's) GetAttributes \<Rightarrow> ('a, 's) Authorize \<Rightarrow> 's Handler \<Rightarrow> 's Handler" where
  "authorizationFilter nonASCII GetAttributes Authorize handler req ws =
     (case ws of (w, s) \<Rightarrow>
      (case GetAttributes req s of ((attributes, err), s1) \<Rightarrow>
        (case err of
           Some (ErrNoStandardParts t) \<Rightarrow> handler req (w, s1)
         | Some (OtherError t) \<Rightarrow> (forbidden nonASCII t w req, s1)
         | None \<Rightarrow>
            (case attributes of
               None \<Rightarrow> (forbidden nonASCII ''No attributes'' w req, s1)
             | Some a \<Rightarrow>
                (case Authorize attributes s1 of ((allowed, reason, err), s2) \<Rightarrow>
                  (case err of
                     Some e \<Rightarrow> (forbidden nonASCII (Error e) w req, s2)
                   | None \<Rightarrow>
                      if \<not> allowed then (forbidden nonASCII reason w req, s2)
                      else handler req (w, s2)))))))"

text \<open>
  Concrete collaborators for the examples. Their state is the list of the calls made so
  far, oldest first, so an example shows which collaborator ran. The example requests
  are ASCII, so the rendering of non-ASCII bytes is never reached; \<open>noNonASCII\<close> renders
  nothing for them.
\<close>

definition noNonASCII :: "string \<Rightarrow> string" where
  "noNonASCII s = []"

definition nilAttributes :: "(nat, string list) GetAttributes" where
  "nilAttributes req s = ((None, None), s @ [''GetAttributes''])"

definition someAttributes :: "(nat, string list) GetAttributes" where
  "someAttributes req s = ((Some (reqPtr req), None), s @ [''GetAttributes''])"


definition nonStandardAttributes :: "(nat, string list) GetAttributes" where
  "nonStandardAttributes req s =
     ((None, Some (ErrNoStandardParts ''no standard parts'')), s @ [''GetAttributes''])"

definition allowAll :: "(nat, string list) Authorize" where
  "allowAll attributes s = ((True, [], None), s @ [''Authorize''])"

definition denyAll :: "(nat, string list) Authorize" where
  "denyAll attributes s = ((False, ''denied by policy'', None), s @ [''Authorize''])"


definition okHandler :: "string list Handler" where
  "okHandler req ws = (case ws of (w, s) \<Rightarrow> (Write ''ok'' w, s @ [''ServeHTTP'']))"

definition freshWriter :: ResponseWriter where
  "freshWriter = \<lparr>wroteHeader = False, status = 0, body = []\<rparr>"

definition buildsRequest :: Request where
  "buildsRequest = \<lparr>reqPtr = 1, RequestURI = ''/osapi/v1beta1/builds''\<rparr>"

definition quoteRequest :: Request where
  "quoteRequest = \<lparr>reqPtr = 2, RequestURI = [CHR ''/'', CHR ''a'', CHR 0x22, CHR ''b'']\<rparr>"

section \<open>pkg/cmd/server/origin: bootstrap of the authorization rules\<close>

text \<open>
  What the embedded code reads of a Policy and of a PolicyBinding is the \<open>Name\<close> of the
  embedded \<open>ObjectMeta\<close>; the rest of the two objects belongs to the authorization API
  package and is not modelled.
\<close>

record ObjectMeta =
  Name :: string
  Namespace :: string

datatype Policy = Policy (policyMeta: ObjectMeta)

datatype PolicyBinding = PolicyBinding (bindingMeta: ObjectMeta)

text \<open>
  The four methods of the registry (\<open>authorizationetcd.New(c.EtcdHelper)\<close>) that the
  bootstrap calls. The first argument is the namespace of the context
  (\<open>kapi.WithNamespace(kapi.NewContext(), c.MasterAuthorizationNamespace)\<close>); the state
  \<open>'s\<close> is the store behind the registry. A nil pointer and a nil error are \<open>None\<close>.
\<close>

record 's Registry =
  GetPolicy :: "string \<Rightarrow> string \<Rightarrow> 's \<Rightarrow> (Policy option \<times> error option) \<times> 's"
  CreatePolicy :: "string \<Rightarrow> Policy \<Rightarrow> 's \<Rightarrow> error option \<times> 's"
  GetPolicyBinding :: "string \<Rightarrow> string \<Rightarrow> 's \<Rightarrow> (PolicyBinding option \<times> error option) \<times> 's"
  CreatePolicyBinding :: "string \<Rightarrow> PolicyBinding \<Rightarrow> 's \<Rightarrow> error option \<times> 's"

text \<open>
  The fields of \<open>MasterConfig\<close> that the embedded functions use. \<open>requestsToUsers\<close> is a
  pointer to the shared request context map: \<open>None\<close> is nil, \<open>Some a\<close> the address of the
  map.
\<close>

record MasterConfig =
  MasterAuthorizationNamespace :: string
  requestsToUsers :: "nat option"

text \<open>The lines that \<open>glog.Errorf\<close> writes during the bootstrap, by call site.\<close>

datatype logLine =
    ErrorCreatingPolicy Policy error
  | ErrorGettingPolicy string error
  | ErrorCreatingPolicyBinding PolicyBinding error
  | ErrorGettingPolicyBinding string error

text \<open>
  The condition \<open>err == nil || strings.Contains(err.Error(), " not found")\<close> of both
  halves of the bootstrap. Where it fails, the error is not nil and the \<open>else\<close> branch
  logs it.
\<close>

definition nilOrNotFound :: "error option \<Rightarrow> bool" where
  "nilOrNotFound err =
     (case err of None \<Rightarrow> True | Some e \<Rightarrow> strings_Contains (Error e) '' not found'')"

text \<open>
  The second half of \<open>ensureComponentAuthorizationRules\<close> (package origin in latest.go,
  lines 619-631): the PolicyBinding named by the master authorization namespace. \<open>lg\<close>
  holds the lines logged so far.
\<close>

definition ensurePolicyBinding ::
  "'s Registry \<Rightarrow> (string \<Rightarrow> PolicyBinding) \<Rightarrow> MasterConfig \<Rightarrow> 's \<Rightarrow> logLine list \<Rightarrow> 's \<times> logLine list" where
  "ensurePolicyBinding registry GetBootstrapPolicyBinding c s lg =
     (let ctx = MasterAuthorizationNamespace c in
      case GetPolicyBinding registry ctx (MasterAuthorizationNamespace c) s of
        ((existing, err), s1) \<Rightarrow>
          (case (if nilOrNotFound err then None else err) of
             None \<Rightarrow>
               if (case existing of None \<Rightarrow> False
                   | Some b \<Rightarrow> Name (bindingMeta b) = MasterAuthorizationNamespace c)
               then (s1, lg)
               else
                 (let bootstrapGlobalPolicyBinding =
                        GetBootstrapPolicyBinding (MasterAuthorizationNamespace c) in
                  case CreatePolicyBinding registry ctx bootstrapGlobalPolicyBinding s1 of
                    (Some e, s2) \<Rightarrow>
                      (s2, lg @ [ErrorCreatingPolicyBinding bootstrapGlobalPolicyBinding e])
                  | (None, s2) \<Rightarrow> (s2, lg))
           | Some e \<Rightarrow>
               (s1, lg @ [ErrorGettingPolicyBinding (MasterAuthorizationNamespace c) e])))"

text \<open>
  \<open>ensureComponentAuthorizationRules\<close> (lines 601-632). \<open>PolicyName\<close> is the constant
  \<open>authorizationapi.PolicyName\<close>, and the two bootstrap objects come from
  \<open>authorizer.GetBootstrapPolicy\<close> and \<open>authorizer.GetBootstrapPolicyBinding\<close>; all three
  belong to packages outside the embedded files and are parameters. The \<open>return\<close> of
  line 607 ends the whole function; the other paths of the first half go on to the
  second half.
\<close>

definition ensureComponentAuthorizationRules ::
  "'s Registry \<Rightarrow> string \<Rightarrow> (string \<Rightarrow> Policy) \<Rightarrow> (string \<Rightarrow> PolicyBinding) \<Rightarrow> MasterConfig \<Rightarrow> 's
     \<Rightarrow> 's \<times> logLine list" where
  "ensureComponentAuthorizationRules registry PolicyName GetBootstrapPolicy
       GetBootstrapPolicyBinding c s =
     (let ctx = MasterAuthorizationNamespace c in
      case GetPolicy registry ctx PolicyName s of
        ((existing, err), s1) \<Rightarrow>
          (case (if nilOrNotFound err then None else err) of
             None \<Rightarrow>
               if (case existing of None \<Rightarrow> False
                   | Some p \<Rightarrow> Name (policyMeta p) = PolicyName)
               then (s1, [])
               else
                 (let bootstrapGlobalPolicy =
                        GetBootstrapPolicy (MasterAuthorizationNamespace c) in
                  case CreatePolicy registry ctx bootstrapGlobalPolicy s1 of
                    (Some e, s2) \<Rightarrow>
                      ensurePolicyBinding registry GetBootstrapPolicyBinding c s2
                        [ErrorCreatingPolicy bootstrapGlobalPolicy e]
                  | (None, s2) \<Rightarrow>
                      ensurePolicyBinding registry GetBootstrapPolicyBinding c s2 [])
           | Some e \<Rightarrow>
               ensurePolicyBinding registry GetBootstrapPolicyBinding c s1
                 [ErrorGettingPolicy PolicyName e]))"

text \<open>
  Modelled from the spec: the policy store behind the registry, whose code
  (\<open>pkg/authorization/registry/etcd\<close>) is not among the embedded files. The spec gives
  its contract as get and create of Policy and PolicyBinding scoped by namespace, where a
  get of an absent object reports not-found, and it speaks of creation failures. The
  model keeps the stored objects under their namespace and name, oldest first, and the
  list of the calls the store received; a create under a key that is taken is refused
  and stores nothing. \<open>failures\<close> holds what the backend will do on the coming calls, in
  order: \<open>Some e\<close> makes the call fail with the error \<open>e\<close> and change nothing, \<open>None\<close>
  lets it through, and so does the empty list.
\<close>

record Store =
  policies :: "((string \<times> string) \<times> Policy) list"
  policyBindings :: "((string \<times> string) \<times> PolicyBinding) list"
  calls :: "string list"
  failures :: "error option list"

text \<open>
  Modelled from the spec: the two errors of the store itself. The text of the first ends
  in \<open>not found\<close>, the report that the bootstrap looks for.
\<close>

definition notFound :: "string \<Rightarrow> string \<Rightarrow> error" where
  "notFound kind name = OtherError (kind @ '' '' @ name @ '' not found'')"

definition alreadyExists :: "string \<Rightarrow> string \<Rightarrow> error" where
  "alreadyExists kind name = OtherError (kind @ '' '' @ name @ '' already exists'')"

text \<open>
  Modelled from the spec: the store notes the call and takes the next entry of
  \<open>failures\<close>.
\<close>

definition received :: "string \<Rightarrow> Store \<Rightarrow> error option \<times> Store" where
  "received call st =
     (case failures st of
        [] \<Rightarrow> (None, st\<lparr>calls := calls st @ [call]\<rparr>)
      | f # fs \<Rightarrow> (f, st\<lparr>calls := calls st @ [call], failures := fs\<rparr>))"

text \<open>
  Modelled from the spec: get of a Policy by namespace and name. A call that the backend
  fails returns its error; otherwise the stored Policy, or not-found.
\<close>

definition storeGetPolicy :: "string \<Rightarrow> string \<Rightarrow> Store \<Rightarrow> (Policy option \<times> error option) \<times> Store" where
  "storeGetPolicy ns name st =
     (case received ''GetPolicy'' st of
        (Some e, st1) \<Rightarrow> ((None, Some e), st1)
      | (None, st1) \<Rightarrow>
          (case map_of (policies st1) (ns, name) of
             Some p \<Rightarrow> ((Some p, None), st1)
           | None \<Rightarrow> ((None, Some (notFound ''policy'' name)), st1)))"

text \<open>
  Modelled from the spec: create of a Policy in a namespace, under its own name. A call
  that the backend fails returns its error; a key that is taken is refused; otherwise
  the Policy is stored.
\<close>

definition storeCreatePolicy :: "string \<Rightarrow> Policy \<Rightarrow> Store \<Rightarrow> error option \<times> Store" where
  "storeCreatePolicy ns p st =
     (case received ''CreatePolicy'' st of
        (Some e, st1) \<Rightarrow> (Some e, st1)
      | (None, st1) \<Rightarrow>
          (let key = (ns, Name (policyMeta p)) in
           case map_of (policies st1) key of
             Some _ \<Rightarrow> (Some (alreadyExists ''policy'' (Name (policyMeta p))), st1)
           | None \<Rightarrow> (None, st1\<lparr>policies := policies st1 @ [(key, p)]\<rparr>)))"

text \<open>Modelled from the spec: get of a PolicyBinding, as for a Policy.\<close>

definition storeGetPolicyBinding ::
  "string \<Rightarrow> string \<Rightarrow> Store \<Rightarrow> (PolicyBinding option \<times> error option) \<times> Store" where
  "storeGetPolicyBinding ns name st =
     (case received ''GetPolicyBinding'' st of
        (Some e, st1) \<Rightarrow> ((None, Some e), st1)
      | (None, st1) \<Rightarrow>
          (case map_of (policyBindings st1) (ns, name) of
             Some b \<Rightarrow> ((Some b, None), st1)
           | None \<Rightarrow> ((None, Some (notFound ''policyBinding'' name)), st1)))"

text \<open>Modelled from the spec: create of a PolicyBinding, as for a Policy.\<close>

definition storeCreatePolicyBinding :: "string \<Rightarrow> PolicyBinding \<Rightarrow> Store \<Rightarrow> error option \<times> Store" where
  "storeCreatePolicyBinding ns b st =
     (case received ''CreatePolicyBinding'' st of
        (Some e, st1) \<Rightarrow> (Some e, st1)
      | (None, st1) \<Rightarrow>
          (let key = (ns, Name (bindingMeta b)) in
           case map_of (policyBindings st1) key of
             Some _ \<Rightarrow> (Some (alreadyExists ''policyBinding'' (Name (bindingMeta b))), st1)
           | None \<Rightarrow> (None, st1\<lparr>policyBindings := policyBindings st1 @ [(key, b)]\<rparr>)))"

text \<open>Modelled from the spec: the registry over the modelled store.\<close>

definition storeRegistry :: "Store Registry" where
  "storeRegistry =
     \<lparr>GetPolicy = storeGetPolicy, CreatePolicy = storeCreatePolicy,
      GetPolicyBinding = storeGetPolicyBinding, CreatePolicyBinding = storeCreatePolicyBinding\<rparr>"

text \<open>
  Every stored object carries the name it is stored under, as every object that
  \<open>storeCreatePolicy\<close> and \<open>storeCreatePolicyBinding\<close> store does.
\<close>

definition wellKeyed :: "Store \<Rightarrow> bool" where
  "wellKeyed st =
     (list_all (\<lambda>(key, p). Name (policyMeta p) = snd key) (policies st) \<and>
      list_all (\<lambda>(key, b). Name (bindingMeta b) = snd key) (policyBindings st))"

text \<open>The store after one run of the bootstrap against the modelled store.\<close>

definition bootstrap ::
  "string \<Rightarrow> (string \<Rightarrow> Policy) \<Rightarrow> (string \<Rightarrow> PolicyBinding) \<Rightarrow> MasterConfig \<Rightarrow> Store \<Rightarrow> Store" where
  "bootstrap PolicyName GetBootstrapPolicy GetBootstrapPolicyBinding c st =
     fst (ensureComponentAuthorizationRules storeRegistry PolicyName GetBootstrapPolicy
            GetBootstrapPolicyBinding c st)"

text \<open>How often the store was asked to do \<open>call\<close>.\<close>

definition callCount :: "string \<Rightarrow> Store \<Rightarrow> nat" where
  "callCount call st = length (filter (\<lambda>c. c = call) (calls st))"

text \<open>
  Example values: a master whose authorization namespace is \<open>master\<close>, the policy name
  \<open>global\<close>, bootstrap objects that carry the expected names, and stores.
\<close>

definition exampleConfig :: MasterConfig where
  "exampleConfig = \<lparr>MasterAuthorizationNamespace = ''master'', requestsToUsers = None\<rparr>"

definition exampleBootstrapPolicy :: "string \<Rightarrow> Policy" where
  "exampleBootstrapPolicy ns = Policy \<lparr>Name = ''global'', Namespace = ns\<rparr>"

definition exampleBootstrapPolicyBinding :: "string \<Rightarrow> PolicyBinding" where
  "exampleBootstrapPolicyBinding ns = PolicyBinding \<lparr>Name = ns, Namespace = ns\<rparr>"

definition emptyStore :: Store where
  "emptyStore = \<lparr>policies = [], policyBindings = [], calls = [], failures = []\<rparr>"

definition policyOnlyStore :: Store where
  "policyOnlyStore =
     \<lparr>policies = [((''master'', ''global''), Policy \<lparr>Name = ''global'', Namespace = ''master''\<rparr>)],
      policyBindings = [], calls = [], failures = []\<rparr>"

definition bootstrappedStore :: Store where
  "bootstrappedStore =
     \<lparr>policies = [((''master'', ''global''), Policy \<lparr>Name = ''global'', Namespace = ''master''\<rparr>)],
      policyBindings =
        [((''master'', ''master''), PolicyBinding \<lparr>Name = ''master'', Namespace = ''master''\<rparr>)],
      calls = [], failures = []\<rparr>"

text \<open>
  An empty store whose backend fails the second call (the creation of the Policy in the
  first run of the bootstrap) and no other.
\<close>

definition failingStore :: Store where
  "failingStore =
     \<lparr>policies = [], policyBindings = [], calls = [],
      failures = [None, Some (OtherError ''backend unavailable'')]\<rparr>"

section \<open>pkg/cmd/server/origin: installation of the protected API\<close>

text \<open>The constants of lines 238-239.\<close>

definition OpenShiftAPIPrefix :: string where
  "OpenShiftAPIPrefix = ''/osapi''"

definition OpenShiftAPIPrefixV1Beta1 :: string where
  "OpenShiftAPIPrefixV1Beta1 = OpenShiftAPIPrefix @ ''/v1beta1''"

text \<open>
  What the embedded code reads and writes of go-restful: of a route, its method, its
  path and its filters; of a web service, its root path, its documentation, its API
  version and its routes; of a container, its registered web services in order. The
  handler, the documentation and the MIME types of a route are not modelled.
  \<open>svc.Routes()\<close> returns the slice of the service's routes, so the assignment through
  \<open>&routes[i]\<close> changes the route of the service.
\<close>

record 'f Route =
  Method :: string
  Path :: string
  Filters :: "'f list"

record 'f WebService =
  rootPath :: string
  documentation :: string
  apiVersion :: string
  routes :: "'f Route list"

text \<open>\<open>glog.Fatalf\<close> ends the process; the model returns which call did.\<close>

datatype fatal =
    InvalidDefaultRegistry error
  | UnableToInitializeAPI error
  | CouldNotFindUserRoute

text \<open>
  The loop over the routes of one web service (lines 471-477): the routes with the
  filter appended where method and path match, and the counter.
\<close>

fun addCurrentUserFilter :: "'f \<Rightarrow> 'f Route list \<Rightarrow> nat \<Rightarrow> 'f Route list \<times> nat" where
  "addCurrentUserFilter currentUserFilter [] userRoutesChanged = ([], userRoutesChanged)"
| "addCurrentUserFilter currentUserFilter (route # rest) userRoutesChanged =
     (if Method route = ''GET'' \<and> Path route = OpenShiftAPIPrefixV1Beta1 @ ''/users/{name}''
      then (case addCurrentUserFilter currentUserFilter rest (userRoutesChanged + 1) of
              (rest', n) \<Rightarrow> (route\<lparr>Filters := Filters route @ [currentUserFilter]\<rparr> # rest', n))
      else (case addCurrentUserFilter currentUserFilter rest userRoutesChanged of
              (rest', n) \<Rightarrow> (route # rest', n)))"

text \<open>
  The loop over the registered web services (lines 460-479). \<open>i\<close> is the position of
  the first remaining service; \<open>root\<close> is the pointer to the last service seen with the
  root path \<open>/\<close>, as its position in the container, \<open>None\<close> for nil.
\<close>

fun scanWebServices ::
  "'f \<Rightarrow> 'f WebService list \<Rightarrow> nat \<Rightarrow> nat option \<Rightarrow> nat
     \<Rightarrow> 'f WebService list \<times> nat option \<times> nat" where
  "scanWebServices currentUserFilter [] i root userRoutesChanged = ([], root, userRoutesChanged)"
| "scanWebServices currentUserFilter (svc # rest) i root userRoutesChanged =
     (if rootPath svc = ''/'' then
        (case scanWebServices currentUserFilter rest (i + 1) (Some i) userRoutesChanged of
           (rest', root', n) \<Rightarrow> (svc # rest', root', n))
      else if rootPath svc = OpenShiftAPIPrefixV1Beta1 then
        (let svc1 = svc\<lparr>documentation := ''OpenShift REST API, version v1beta1'',
                        apiVersion := ''v1beta1''\<rparr> in
         case addCurrentUserFilter currentUserFilter (routes svc1) userRoutesChanged of
           (routes', changed) \<Rightarrow>
             (case scanWebServices currentUserFilter rest (i + 1) root changed of
                (rest', root', n) \<Rightarrow> (svc1\<lparr>routes := routes'\<rparr> # rest', root', n)))
      else
        (case scanWebServices currentUserFilter rest (i + 1) root userRoutesChanged of
           (rest', root', n) \<Rightarrow> (svc # rest', root', n)))"

text \<open>
  \<open>initAPIVersionRoute\<close> (lines 512-518): one more GET route on the service, at the
  path \<open>OpenShiftAPIPrefix\<close>.
\<close>

definition initAPIVersionRoute :: "'f WebService \<Rightarrow> string \<Rightarrow> 'f WebService" where
  "initAPIVersionRoute root version =
     root\<lparr>routes := routes root @ [\<lparr>Method = ''GET'', Path = OpenShiftAPIPrefix, Filters = []\<rparr>]\<rparr>"

text \<open>\<open>new(restful.WebService)\<close>: every field has its zero value.\<close>

definition newWebService :: "'f WebService" where
  "newWebService = \<lparr>rootPath = [], documentation = [], apiVersion = [], routes = []\<rparr>"

text \<open>
  \<open>InstallProtectedAPI\<close> (lines 382-492). The steps before the scan are taken as given:
  \<open>deferErr\<close> is the error of \<open>svcCache.Defer(defaultRegistry)\<close>, and \<open>InstallREST\<close> is
  the installation of the storage map into the container, with its error and the
  container it leaves. \<open>currentUserFilter\<close> is the filter that
  \<open>currentUserContextFilter(c.getRequestsToUsers())\<close> builds. The result is the fatal
  call that ended the process, or the container and the returned strings.
\<close>

definition InstallProtectedAPI ::
  "error option \<Rightarrow> ('f WebService list \<Rightarrow> error option \<times> 'f WebService list) \<Rightarrow> 'f
     \<Rightarrow> 'f WebService list \<Rightarrow> fatal + ('f WebService list \<times> string list)" where
  "InstallProtectedAPI deferErr InstallREST currentUserFilter container =
     (case deferErr of
        Some err \<Rightarrow> Inl (InvalidDefaultRegistry err)
      | None \<Rightarrow>
         (case InstallREST container of
            (Some err, container1) \<Rightarrow> Inl (UnableToInitializeAPI err)
          | (None, container1) \<Rightarrow>
             (case scanWebServices currentUserFilter container1 0 None 0 of
                (container2, root, userRoutesChanged) \<Rightarrow>
                  if userRoutesChanged \<noteq> 1 then Inl CouldNotFindUserRoute
                  else
                    (case (case root of
                             None \<Rightarrow> (container2 @ [newWebService], length container2)
                           | Some r \<Rightarrow> (container2, r)) of
                       (container3, r) \<Rightarrow>
                         Inr (container3[r := initAPIVersionRoute (container3 ! r) ''v1beta1''],
                              [''Started OpenShift API at %s'' @ OpenShiftAPIPrefixV1Beta1])))))"

text \<open>
  The GET routes on the current-user path among the routes of the web services of the
  versioned API root, in the words of the specification.
\<close>

definition isCurrentUserRoute :: "'f Route \<Rightarrow> bool" where
  "isCurrentUserRoute route =
     (Method route = ''GET'' \<and> Path route = ''/osapi/v1beta1/users/{name}'')"

definition currentUserRoutes :: "'f WebService list \<Rightarrow> 'f Route list" where
  "currentUserRoutes container =
     filter isCurrentUserRoute
       (concat (map routes (filter (\<lambda>svc. rootPath svc = ''/osapi/v1beta1'') container)))"

text \<open>
  A web service as the scan should leave it: a service of the versioned API root gets the
  documentation and the API version, and the filter at the end of the filters of each
  of its GET routes on the current-user path; any other service is unchanged.
\<close>

definition scanned :: "'f \<Rightarrow> 'f WebService \<Rightarrow> 'f WebService" where
  "scanned f svc =
     (if rootPath svc = ''/osapi/v1beta1''
      then svc\<lparr>documentation := ''OpenShift REST API, version v1beta1'',
               apiVersion := ''v1beta1'',
               routes := map (\<lambda>r. if isCurrentUserRoute r then r\<lparr>Filters := Filters r @ [f]\<rparr>
                                     else r) (routes svc)\<rparr>
      else svc)"

text \<open>
  The loop of \<open>Run\<close> over the installers of the protected container (lines 534-536),
  after \<open>InstallProtectedAPI\<close> was appended to them (line 533). An installer is a
  function on the container; one that ends the process ends the loop, and \<open>Run\<close> with
  it. \<open>Run\<close> starts the loop on a new container with no strings collected.
\<close>

fun installAPIs ::
  "('f WebService list \<Rightarrow> fatal + ('f WebService list \<times> string list)) list
     \<Rightarrow> 'f WebService list \<Rightarrow> string list \<Rightarrow> fatal + ('f WebService list \<times> string list)" where
  "installAPIs [] safe extra = Inr (safe, extra)"
| "installAPIs (i # rest) safe extra =
     (case i safe of
        Inl stop \<Rightarrow> Inl stop
      | Inr (safe', strings) \<Rightarrow> installAPIs rest safe' (extra @ strings))"

definition Run_installProtected ::
  "('f WebService list \<Rightarrow> fatal + ('f WebService list \<times> string list)) list
     \<Rightarrow> ('f WebService list \<Rightarrow> fatal + ('f WebService list \<times> string list))
     \<Rightarrow> fatal + ('f WebService list \<times> string list)" where
  "Run_installProtected protected installProtectedAPI =
     installAPIs (protected @ [installProtectedAPI]) [] []"

text \<open>Example containers: filters are numbers, 7 is the current-user filter.\<close>

definition usersService :: "nat WebService" where
  "usersService =
     \<lparr>rootPath = ''/osapi/v1beta1'', documentation = [], apiVersion = [],
      routes = [\<lparr>Method = ''GET'', Path = ''/osapi/v1beta1/users/{name}'', Filters = [3]\<rparr>,
                \<lparr>Method = ''PUT'', Path = ''/osapi/v1beta1/users/{name}'', Filters = []\<rparr>,
                \<lparr>Method = ''GET'', Path = ''/osapi/v1beta1/builds'', Filters = []\<rparr>]\<rparr>"

definition buildsService :: "nat WebService" where
  "buildsService =
     \<lparr>rootPath = ''/osapi/v1beta1'', documentation = [], apiVersion = [],
      routes = [\<lparr>Method = ''GET'', Path = ''/osapi/v1beta1/builds'', Filters = []\<rparr>]\<rparr>"

definition installNothing :: "nat WebService list \<Rightarrow> error option \<times> nat WebService list" where
  "installNothing container = (None, container)"

definition installUsers ::
  "nat WebService list \<Rightarrow> fatal + (nat WebService list \<times> string list)" where
  "installUsers container = Inr (container @ [usersService], [''Started the users API''])"

section \<open>pkg/cmd/server/origin: the handler of the protected container\<close>

text \<open>
  The state that the handlers of the protected container share: the request context
  maps that exist in the process, by address. A \<open>RequestContextMap\<close> takes a request (the
  pointer) to its user.
\<close>

record 'u World =
  contextMaps :: "nat \<Rightarrow> (nat \<rightharpoonup> 'u)"

text \<open>
  \<open>getRequestsToUsers\<close> (lines 593-598): the map of the configuration, made by
  \<open>authcontext.NewRequestContextMap()\<close> on the first call. The second component of the
  state is the next free address; a new map takes it.
\<close>

definition getRequestsToUsers :: "MasterConfig \<times> nat \<Rightarrow> nat \<times> MasterConfig \<times> nat" where
  "getRequestsToUsers cn =
     (case cn of (c, free) \<Rightarrow>
        (case requestsToUsers c of
           None \<Rightarrow> (free, c\<lparr>requestsToUsers := Some free\<rparr>, free + 1)
         | Some a \<Rightarrow> (a, c, free)))"

text \<open>
  Modelled from the spec: the write of the authentication stage into the
  RequestContextMap. The user is stored under the request in the map at the address
  \<open>contextMapper\<close>; the other maps and the other entries stay as they are.
\<close>

definition storeUser :: "nat \<Rightarrow> Request \<Rightarrow> 'u \<Rightarrow> 'u World \<Rightarrow> 'u World" where
  "storeUser contextMapper req user world =
     world\<lparr>contextMaps := (contextMaps world)
              (contextMapper := (contextMaps world contextMapper)(reqPtr req \<mapsto> user))\<rparr>"

text \<open>
  Modelled from the spec: \<open>authenticationHandlerFilter\<close>, which \<open>Run\<close> calls and whose
  code is in a file of the package that is not among the embedded files. The spec gives
  the authenticator as \<open>authenticate(request) -> (identity, ok, error)\<close> and says that the
  authentication stage writes the entry of the request into the RequestContextMap, which
  the authorization stage reads. The model writes the identity under the request into
  the map at \<open>contextMapper\<close> and then runs the inner handler; what the stage answers
  when the request is not authenticated is not said by the spec and is the parameter
  \<open>unauthenticated\<close>.
\<close>

definition authenticationHandlerFilter ::
  "'u World Handler \<Rightarrow> (Request \<Rightarrow> 'u \<times> bool \<times> error option) \<Rightarrow> nat \<Rightarrow> 'u World Handler
     \<Rightarrow> 'u World Handler" where
  "authenticationHandlerFilter handler Authenticator contextMapper unauthenticated req ws =
     (case ws of (w, world) \<Rightarrow>
        (case Authenticator req of (user, ok, err) \<Rightarrow>
           if err \<noteq> None \<or> \<not> ok then unauthenticated req (w, world)
           else handler req (w, storeUser contextMapper req user world)))"

text \<open>
  The handler that \<open>Run\<close> builds for the protected container (lines 537-538).
  \<open>c.authorizationFilter(safe)\<close> builds its attribute builder on
  \<open>c.getRequestsToUsers()\<close> (line 637) and returns the filter around \<open>safe\<close>; then
  \<open>authenticationHandlerFilter\<close> is put around that filter, with a second call of
  \<open>c.getRequestsToUsers()\<close>. \<open>NewAuthorizationAttributeBuilder\<close> makes the
  \<open>GetAttributes\<close> of a builder from the address of its map; \<open>Authorize\<close> is the method of
  the authorizer of line 638.
\<close>

definition Run_handler ::
  "(string \<Rightarrow> string) \<Rightarrow> (nat \<Rightarrow> ('a, 'u World) GetAttributes) \<Rightarrow> ('a, 'u World) Authorize
     \<Rightarrow> (Request \<Rightarrow> 'u \<times> bool \<times> error option) \<Rightarrow> 'u World Handler \<Rightarrow> 'u World Handler
     \<Rightarrow> MasterConfig \<times> nat \<Rightarrow> 'u World Handler \<times> MasterConfig \<times> nat" where
  "Run_handler nonASCII NewAuthorizationAttributeBuilder Authorize Authenticator
       unauthenticated safe cn =
     (case getRequestsToUsers cn of (builderMap, c1, free1) \<Rightarrow>
        (let handler = authorizationFilter nonASCII
                         (NewAuthorizationAttributeBuilder builderMap) Authorize safe
         in case getRequestsToUsers (c1, free1) of (authMap, c2, free2) \<Rightarrow>
              (authenticationHandlerFilter handler Authenticator authMap unauthenticated,
               c2, free2)))"

text \<open>
  Example collaborators on the shared state: a builder whose attributes are the user
  that its map holds for the request and that fails when the map holds none, a second
  builder that differs from it only where the map holds no user, an authorizer that
  allows the user \<open>alice\<close> only, an authenticator that knows the request 1 as
  \<open>alice\<close>, the answer 401 to an unauthenticated request, and an inner handler that
  writes the status 200.
\<close>

definition userBuilder :: "nat \<Rightarrow> (string, string World) GetAttributes" where
  "userBuilder m req world =
     (case contextMaps world m (reqPtr req) of
        Some user \<Rightarrow> ((Some user, None), world)
      | None \<Rightarrow> ((None, Some (OtherError ''no user for the request'')), world))"

definition lenientBuilder :: "nat \<Rightarrow> (string, string World) GetAttributes" where
  "lenientBuilder m req world =
     (case contextMaps world m (reqPtr req) of
        Some user \<Rightarrow> ((Some user, None), world)
      | None \<Rightarrow> ((None, Some (ErrNoStandardParts ''no standard parts'')), world))"

definition aliceOnly :: "(string, string World) Authorize" where
  "aliceOnly attributes world =
     ((attributes = Some ''alice'', ''only alice is allowed'', None), world)"

definition knowsAlice :: "Request \<Rightarrow> string \<times> bool \<times> error option" where
  "knowsAlice req = (if reqPtr req = 1 then (''alice'', True, None) else ([], False, None))"

definition answer401 :: "string World Handler" where
  "answer401 req ws = (case ws of (w, world) \<Rightarrow> (WriteHeader 401 w, world))"

definition answer200 :: "string World Handler" where
  "answer200 req ws = (case ws of (w, world) \<Rightarrow> (WriteHeader 200 w, world))"

definition noMaps :: "string World" where
  "noMaps = \<lparr>contextMaps = (\<lambda>a. Map.empty)\<rparr>"

section \<open>Properties of the version registry\<close>

lemma strings_Join_member:
  "v \<in> set vs \<Longrightarrow> sublist v (strings_Join vs sep)"
proof (induction vs sep rule: strings_Join.induct)
  case (1 sep)
  then show ?case by simp
next
  case (2 a sep)
  then show ?case by simp
next
  case (3 a b rest sep)
  show ?case
  proof (cases "v = a")
    case True
    have "sublist a ([] @ a @ (sep @ strings_Join (b # rest) sep))"
      by (rule sublist_appendI)
    then show ?thesis using True by simp
  next
    case False
    with 3 have "sublist v (strings_Join (b # rest) sep)" by simp
    then obtain ps ss where "strings_Join (b # rest) sep = ps @ v @ ss"
      by (auto simp: sublist_def)
    then have "strings_Join (a # b # rest) sep = (a @ sep @ ps) @ v @ ss" by simp
    then show ?thesis unfolding sublist_def by blast
  qed
qed

text \<open>
  Claim C7. A version string that is not in \<open>Versions\<close> makes \<open>InterfacesFor\<close> fail; the
  text of the error is the fixed format around the requested version and the known
  versions joined by a comma and a space, so the joined list, and with it every known
  version, occurs in the message. A version string that is in \<open>Versions\<close> makes it
  succeed with the codec, the object convertor and the metadata accessor of the version.
\<close>

theorem InterfacesFor_known_or_error:
  "(version \<notin> set Versions \<longrightarrow>
      (\<exists>e. InterfacesFor cd sch acc version = Inl e \<and>
           Error e = ''unsupported storage version: '' @ version @ '' (valid: '' @
                       strings_Join Versions '', '' @ '')'' \<and>
           sublist (strings_Join Versions '', '') (Error e) \<and>
           (\<forall>v \<in> set Versions. sublist v (Error e)))) \<and>
   (version \<in> set Versions \<longrightarrow>
      InterfacesFor cd sch acc version =
        Inr \<lparr>Codec = cd, ObjectConvertor = sch, MetadataAccessor = acc\<rparr>)"
proof (intro conjI impI)
  assume unknown: "version \<notin> set Versions"
  let ?msg = "''unsupported storage version: '' @ version @ '' (valid: '' @
                strings_Join Versions '', '' @ '')''"
  have ne: "version \<noteq> ''v1beta1''" using unknown by (simp add: Versions_def)
  have res: "InterfacesFor cd sch acc version = Inl (OtherError ?msg)"
    using ne by (simp add: InterfacesFor_def)
  have "?msg = (''unsupported storage version: '' @ version @ '' (valid: '') @
                strings_Join Versions '', '' @ '')''" by simp
  then have joined: "sublist (strings_Join Versions '', '') ?msg"
    unfolding sublist_def by blast
  have each: "\<forall>v \<in> set Versions. sublist v ?msg"
  proof
    fix v assume "v \<in> set Versions"
    then have "sublist v (strings_Join Versions '', '')" by (rule strings_Join_member)
    then show "sublist v ?msg" using joined by (rule sublist_order.order_trans)
  qed
  show "\<exists>e. InterfacesFor cd sch acc version = Inl e \<and>
           Error e = ?msg \<and> sublist (strings_Join Versions '', '') (Error e) \<and>
           (\<forall>v \<in> set Versions. sublist v (Error e))"
    using res joined each by simp
next
  assume "version \<in> set Versions"
  then have "version = ''v1beta1''" by (simp add: Versions_def)
  then show "InterfacesFor cd sch acc version =
        Inr \<lparr>Codec = cd, ObjectConvertor = sch, MetadataAccessor = acc\<rparr>"
    by (simp add: InterfacesFor_def)
qed

theorem InterfacesFor_known_or_error_witness:
  "''unknown'' \<notin> set Versions \<and>
   InterfacesFor (1::nat) (2::nat) (3::nat) ''unknown'' =
     Inl (OtherError ''unsupported storage version: unknown (valid: v1beta1)'') \<and>
   sublist ''v1beta1'' ''unsupported storage version: unknown (valid: v1beta1)'' \<and>
   ''v1beta1'' \<in> set Versions \<and>
   InterfacesFor (1::nat) (2::nat) (3::nat) ''v1beta1'' =
     Inr \<lparr>Codec = 1, ObjectConvertor = 2, MetadataAccessor = 3\<rparr>"
proof -
  have u: "''unknown'' \<notin> set Versions" by (simp add: Versions_def)
  have k: "''v1beta1'' \<in> set Versions" by (simp add: Versions_def)
  from InterfacesFor_known_or_error [of "''unknown''" "1::nat" "2::nat" "3::nat"] u
  obtain e where e: "InterfacesFor (1::nat) (2::nat) (3::nat) ''unknown'' = Inl e"
    "Error e = ''unsupported storage version: '' @ ''unknown'' @ '' (valid: '' @
                 strings_Join Versions '', '' @ '')''"
    "\<forall>v \<in> set Versions. sublist v (Error e)"
    by blast
  have msg: "Error e = ''unsupported storage version: unknown (valid: v1beta1)''"
    using e(2) by (simp add: Versions_def)
  have eq: "e = OtherError ''unsupported storage version: unknown (valid: v1beta1)''"
    using e(1) msg by (simp add: InterfacesFor_def Versions_def)
  have sub: "sublist ''v1beta1'' ''unsupported storage version: unknown (valid: v1beta1)''"
    using e(3) k msg by auto
  from InterfacesFor_known_or_error [of "''v1beta1''" "1::nat" "2::nat" "3::nat"] k
  have ok: "InterfacesFor (1::nat) (2::nat) (3::nat) ''v1beta1'' =
     Inr \<lparr>Codec = 1, ObjectConvertor = 2, MetadataAccessor = 3\<rparr>"
    by blast
  show ?thesis using u k e(1) eq sub ok by simp
qed

section \<open>Properties of the scope registration\<close>

lemma init_kinds_set:
  "set (init_kinds version kinds m) =
     set m \<union> (\<lambda>kind. \<lparr>regScope = (case kindToRootScope kind of Some _ \<Rightarrow> Some RESTScopeRoot
                                        | None \<Rightarrow> versionToNamespaceScope version),
                          regKind = kind, regVersion = version,
                          regMixedCase = (case versionMixedCase version of Some b \<Rightarrow> b
                                          | None \<Rightarrow> False)\<rparr>) ` set kinds"
  by (induction kinds arbitrary: m) (auto simp: Add_def Let_def)

lemma init_originMapper:
  "hd (init KnownTypes kubeMapper) = init_kinds ''v1beta1'' (KnownTypes ''v1beta1'') []"
  by (simp add: init_def Versions_def)

lemma kindToRootScope_cases:
  "kindToRootScope kind =
     (if kind \<in> {''Project'', ''User'', ''Identity'', ''UserIdentityMapping'',
                  ''OAuthAccessToken'', ''OAuthAuthorizeToken'', ''OAuthClient'',
                  ''OAuthClientAuthorization''}
      then Some True else None)"
  by (simp add: kindToRootScope_def)

text \<open>
  Claim C6. For every kind of the schema's version \<open>v1beta1\<close>, the origin mapper built by
  \<open>init\<close> holds a registration of the kind for that version, and every registration it
  holds for the kind and that version has \<open>mixedCase\<close> true and has scope Root when the
  kind is one of Project, User, Identity, UserIdentityMapping, OAuthAccessToken,
  OAuthAuthorizeToken, OAuthClient and OAuthClientAuthorization, and scope
  NamespaceLegacy otherwise. The origin mapper is the first of the composite mapper.
\<close>

theorem init_scope_of_kind:
  assumes "kind \<in> set (KnownTypes ''v1beta1'')"
  shows "(\<exists>r \<in> set (hd (init KnownTypes kubeMapper)).
            regKind r = kind \<and> regVersion r = ''v1beta1'') \<and>
         (\<forall>r \<in> set (hd (init KnownTypes kubeMapper)).
            regKind r = kind \<and> regVersion r = ''v1beta1'' \<longrightarrow>
              regMixedCase r = True \<and>
              regScope r =
                (if kind \<in> {''Project'', ''User'', ''Identity'', ''UserIdentityMapping'',
                             ''OAuthAccessToken'', ''OAuthAuthorizeToken'', ''OAuthClient'',
                             ''OAuthClientAuthorization''}
                 then Some RESTScopeRoot else Some RESTScopeNamespaceLegacy))"
proof -
  let ?reg = "\<lambda>kind. \<lparr>regScope = (case kindToRootScope kind of Some _ \<Rightarrow> Some RESTScopeRoot
                                        | None \<Rightarrow> versionToNamespaceScope ''v1beta1''),
                          regKind = kind, regVersion = ''v1beta1'',
                          regMixedCase = (case versionMixedCase ''v1beta1'' of Some b \<Rightarrow> b
                                          | None \<Rightarrow> False)\<rparr>"
  have regs: "set (hd (init KnownTypes kubeMapper)) = ?reg ` set (KnownTypes ''v1beta1'')"
    by (simp add: init_originMapper init_kinds_set)
  have ex: "\<exists>r \<in> set (hd (init KnownTypes kubeMapper)).
              regKind r = kind \<and> regVersion r = ''v1beta1''"
    unfolding regs using assms by auto
  have all: "\<forall>r \<in> set (hd (init KnownTypes kubeMapper)).
            regKind r = kind \<and> regVersion r = ''v1beta1'' \<longrightarrow>
              regMixedCase r = True \<and>
              regScope r =
                (if kind \<in> {''Project'', ''User'', ''Identity'', ''UserIdentityMapping'',
                             ''OAuthAccessToken'', ''OAuthAuthorizeToken'', ''OAuthClient'',
                             ''OAuthClientAuthorization''}
                 then Some RESTScopeRoot else Some RESTScopeNamespaceLegacy)"
    unfolding regs
    by (auto simp: kindToRootScope_cases versionMixedCase_def versionToNamespaceScope_def)
  show ?thesis using ex all by blast
qed

theorem init_scope_of_kind_witness:
  "''Project'' \<in> set (exampleKnownTypes ''v1beta1'') \<and>
   ''Build'' \<in> set (exampleKnownTypes ''v1beta1'') \<and>
   hd (init exampleKnownTypes []) =
     [\<lparr>regScope = Some RESTScopeNamespaceLegacy, regKind = ''Build'',
       regVersion = ''v1beta1'', regMixedCase = True\<rparr>,
      \<lparr>regScope = Some RESTScopeRoot, regKind = ''Project'',
       regVersion = ''v1beta1'', regMixedCase = True\<rparr>] \<and>
   (\<exists>r \<in> set (hd (init exampleKnownTypes [])).
      regKind r = ''Project'' \<and> regScope r = Some RESTScopeRoot) \<and>
   (\<exists>r \<in> set (hd (init exampleKnownTypes [])).
      regKind r = ''Build'' \<and> regScope r = Some RESTScopeNamespaceLegacy \<and> regMixedCase r)"
proof -
  have p: "''Project'' \<in> set (exampleKnownTypes ''v1beta1'')"
    by (simp add: exampleKnownTypes_def)
  have b: "''Build'' \<in> set (exampleKnownTypes ''v1beta1'')"
    by (simp add: exampleKnownTypes_def)
  have regs: "hd (init exampleKnownTypes []) =
     [\<lparr>regScope = Some RESTScopeNamespaceLegacy, regKind = ''Build'',
       regVersion = ''v1beta1'', regMixedCase = True\<rparr>,
      \<lparr>regScope = Some RESTScopeRoot, regKind = ''Project'',
       regVersion = ''v1beta1'', regMixedCase = True\<rparr>]"
    by (simp add: init_def Versions_def exampleKnownTypes_def Add_def kindToRootScope_def
        versionMixedCase_def versionToNamespaceScope_def)
  have "\<exists>r \<in> set (hd (init exampleKnownTypes [])).
      regKind r = ''Project'' \<and> regScope r = Some RESTScopeRoot"
    using p init_scope_of_kind [where kind = "''Project''" and KnownTypes = exampleKnownTypes
        and kubeMapper = "[]"]
    by auto
  moreover have "\<exists>r \<in> set (hd (init exampleKnownTypes [])).
      regKind r = ''Build'' \<and> regScope r = Some RESTScopeNamespaceLegacy \<and> regMixedCase r"
    using b init_scope_of_kind [where kind = "''Build''" and KnownTypes = exampleKnownTypes
        and kubeMapper = "[]"]
    by auto
  ultimately show ?thesis using p b regs by blast
qed

section \<open>Properties of the authorization filter\<close>

lemma forbidden_fresh:
  "\<not> wroteHeader w \<Longrightarrow>
   forbidden nonASCII reason w req =
     \<lparr>wroteHeader = True, status = 403,
      body = body w @ ''Forbidden: '' @ strconv_Quote nonASCII (RequestURI req) @ '' '' @ reason\<rparr>"
  by (simp add: forbidden_def Write_def WriteHeader_def StatusForbidden_def)







text \<open>
  Claim C1, as amended. With the result of the attribute builder and of the authorizer
  named, the filter decides in this order: on the sentinel \<open>ErrNoStandardParts\<close> it
  runs the inner handler on the writer and the request it received and writes nothing
  itself; on any other builder error it answers through \<open>forbidden\<close> with the text of the
  error, leaving the state as the builder left it; with no error and nil attributes it
  answers through \<open>forbidden\<close> with the reason "No attributes", again in the state the
  builder left, so the authorizer has not run; with attributes, the authorizer runs, and
  its error or its verdict "not allowed" is answered through \<open>forbidden\<close> (with the text
  of the error, or the returned reason), while the verdict "allowed" runs the inner
  handler on the same writer and request. An answer through \<open>forbidden\<close> on a writer
  whose header is not yet written has status 403.
\<close>

theorem authorizationFilter_decision:
  assumes build: "GetAttributes req s = ((attributes, err), s1)"
      and auth: "Authorize attributes s1 = ((allowed, reason, aerr), s2)"
  shows
   "(\<forall>t. err = Some (ErrNoStandardParts t) \<longrightarrow>
        authorizationFilter nonASCII GetAttributes Authorize handler req (w, s) = handler req (w, s1)) \<and>
    (\<forall>t. err = Some (OtherError t) \<longrightarrow>
        authorizationFilter nonASCII GetAttributes Authorize handler req (w, s) =
          (forbidden nonASCII t w req, s1)) \<and>
    (err = None \<and> attributes = None \<longrightarrow>
        authorizationFilter nonASCII GetAttributes Authorize handler req (w, s) =
          (forbidden nonASCII ''No attributes'' w req, s1)) \<and>
    (err = None \<and> attributes \<noteq> None \<longrightarrow>
        (\<forall>e. aerr = Some e \<longrightarrow>
           authorizationFilter nonASCII GetAttributes Authorize handler req (w, s) =
             (forbidden nonASCII (Error e) w req, s2)) \<and>
        (aerr = None \<and> \<not> allowed \<longrightarrow>
           authorizationFilter nonASCII GetAttributes Authorize handler req (w, s) =
             (forbidden nonASCII reason w req, s2)) \<and>
        (aerr = None \<and> allowed \<longrightarrow>
           authorizationFilter nonASCII GetAttributes Authorize handler req (w, s) =
             handler req (w, s2))) \<and>
    (\<forall>why. \<not> wroteHeader w \<longrightarrow> status (forbidden nonASCII why w req) = 403)"
  using build auth
  by (auto simp: authorizationFilter_def forbidden_fresh)

theorem authorizationFilter_decision_witness:
  "authorizationFilter noNonASCII nonStandardAttributes denyAll okHandler buildsRequest
     (freshWriter, []) =
     (\<lparr>wroteHeader = True, status = 200, body = ''ok''\<rparr>, [''GetAttributes'', ''ServeHTTP'']) \<and>
   authorizationFilter noNonASCII someAttributes allowAll okHandler buildsRequest
     (freshWriter, []) =
     (\<lparr>wroteHeader = True, status = 200, body = ''ok''\<rparr>,
      [''GetAttributes'', ''Authorize'', ''ServeHTTP'']) \<and>
   authorizationFilter noNonASCII someAttributes denyAll okHandler buildsRequest
     (freshWriter, []) =
     (\<lparr>wroteHeader = True, status = 403,
       body = ''Forbidden: '' @ [CHR 0x22] @ ''/osapi/v1beta1/builds'' @ [CHR 0x22] @
              '' denied by policy''\<rparr>,
      [''GetAttributes'', ''Authorize''])"
proof -
  have n: "nonStandardAttributes buildsRequest [] =
      ((None, Some (ErrNoStandardParts ''no standard parts'')), [''GetAttributes''])"
    by (simp add: nonStandardAttributes_def)
  have g: "someAttributes buildsRequest [] = ((Some 1, None), [''GetAttributes''])"
    by (simp add: someAttributes_def buildsRequest_def)
  have dn: "denyAll None [''GetAttributes''] =
      ((False, ''denied by policy'', None), [''GetAttributes'', ''Authorize''])"
    by (simp add: denyAll_def)
  have d: "denyAll (Some 1) [''GetAttributes''] =
      ((False, ''denied by policy'', None), [''GetAttributes'', ''Authorize''])"
    by (simp add: denyAll_def)
  have a: "allowAll (Some 1) [''GetAttributes''] =
      ((True, [], None), [''GetAttributes'', ''Authorize''])"
    by (simp add: allowAll_def)
  have fresh: "\<not> wroteHeader freshWriter" by (simp add: freshWriter_def)
  have "authorizationFilter noNonASCII nonStandardAttributes denyAll okHandler buildsRequest
          (freshWriter, []) = okHandler buildsRequest (freshWriter, [''GetAttributes''])"
    using authorizationFilter_decision [where GetAttributes = nonStandardAttributes
        and Authorize = denyAll and req = buildsRequest and s = "[]"
        and nonASCII = noNonASCII and handler = okHandler and w = freshWriter, OF n dn]
    by simp
  then have c1: "authorizationFilter noNonASCII nonStandardAttributes denyAll okHandler
          buildsRequest (freshWriter, []) =
     (\<lparr>wroteHeader = True, status = 200, body = ''ok''\<rparr>, [''GetAttributes'', ''ServeHTTP''])"
    by (simp add: okHandler_def freshWriter_def Write_def WriteHeader_def)
  have "authorizationFilter noNonASCII someAttributes allowAll okHandler buildsRequest
          (freshWriter, []) =
        okHandler buildsRequest (freshWriter, [''GetAttributes'', ''Authorize''])"
    using authorizationFilter_decision [where GetAttributes = someAttributes
        and Authorize = allowAll and req = buildsRequest and s = "[]"
        and nonASCII = noNonASCII and handler = okHandler and w = freshWriter, OF g a]
    by simp
  then have c2: "authorizationFilter noNonASCII someAttributes allowAll okHandler buildsRequest
          (freshWriter, []) =
     (\<lparr>wroteHeader = True, status = 200, body = ''ok''\<rparr>,
      [''GetAttributes'', ''Authorize'', ''ServeHTTP''])"
    by (simp add: okHandler_def freshWriter_def Write_def WriteHeader_def)
  have "authorizationFilter noNonASCII someAttributes denyAll okHandler buildsRequest
          (freshWriter, []) =
        (forbidden noNonASCII ''denied by policy'' freshWriter buildsRequest,
         [''GetAttributes'', ''Authorize''])"
    using authorizationFilter_decision [where GetAttributes = someAttributes
        and Authorize = denyAll and req = buildsRequest and s = "[]"
        and nonASCII = noNonASCII and handler = okHandler and w = freshWriter, OF g d]
    by simp
  then have c3: "authorizationFilter noNonASCII someAttributes denyAll okHandler buildsRequest
          (freshWriter, []) =
     (\<lparr>wroteHeader = True, status = 403,
       body = ''Forbidden: '' @ [CHR 0x22] @ ''/osapi/v1beta1/builds'' @ [CHR 0x22] @
              '' denied by policy''\<rparr>,
      [''GetAttributes'', ''Authorize''])"
    by (simp add: forbidden_fresh fresh strconv_Quote_def quoteASCII_def buildsRequest_def
        freshWriter_def)
  show ?thesis using c1 c2 c3 by blast
qed

text \<open>
  Claim C1 as stated fails: the builder returns no error (and nil attributes) and the
  authorizer would allow the request, yet the filter answers 403 with "No attributes",
  the authorizer is not consulted and the inner handler does not run.
\<close>

theorem authorizationFilter_nil_attributes_counterexample:
  "fst (nilAttributes buildsRequest []) = (None, None) \<and>
   fst (allowAll None (snd (nilAttributes buildsRequest []))) = (True, [], None) \<and>
   authorizationFilter noNonASCII nilAttributes allowAll okHandler buildsRequest
     (freshWriter, []) =
     (\<lparr>wroteHeader = True, status = 403,
       body = ''Forbidden: '' @ [CHR 0x22] @ ''/osapi/v1beta1/builds'' @ [CHR 0x22] @
              '' No attributes''\<rparr>,
      [''GetAttributes'']) \<and>
   authorizationFilter noNonASCII nilAttributes allowAll okHandler buildsRequest
     (freshWriter, []) \<noteq>
     okHandler buildsRequest
       (freshWriter, snd (allowAll None (snd (nilAttributes buildsRequest []))))"
  by (simp add: authorizationFilter_def nilAttributes_def allowAll_def okHandler_def
      forbidden_def Write_def WriteHeader_def StatusForbidden_def strconv_Quote_def
      quoteASCII_def buildsRequest_def freshWriter_def)




text \<open>
  Claim C10. When the builder returns nil attributes and a nil error, the filter answers
  through \<open>forbidden\<close> with the reason "No attributes" and leaves the state as the
  builder left it; the outcome is the same whatever the authorizer and the inner handler
  are, so neither is invoked; on a writer whose header is not yet written the status is
  403 and the body gains \<open>Forbidden: \<close>, the quoted URI and \<open> No attributes\<close>.
\<close>

theorem authorizationFilter_no_attributes:
  assumes "fst (GetAttributes req s) = (None, None)"
  shows "authorizationFilter nonASCII GetAttributes Authorize handler req (w, s) =
           (forbidden nonASCII ''No attributes'' w req, snd (GetAttributes req s)) \<and>
         (\<forall>Authorize' handler'.
            authorizationFilter nonASCII GetAttributes Authorize' handler' req (w, s) =
            authorizationFilter nonASCII GetAttributes Authorize handler req (w, s)) \<and>
         (\<not> wroteHeader w \<longrightarrow>
            status (forbidden nonASCII ''No attributes'' w req) = 403 \<and>
            body (forbidden nonASCII ''No attributes'' w req) =
              body w @ ''Forbidden: '' @ strconv_Quote nonASCII (RequestURI req) @
              '' No attributes'')"
proof -
  obtain s1 where g: "GetAttributes req s = ((None, None), s1)"
    using assms by (cases "GetAttributes req s") auto
  have R: "\<And>A h. authorizationFilter nonASCII GetAttributes A h req (w, s) =
           (forbidden nonASCII ''No attributes'' w req, s1)"
    using g by (simp add: authorizationFilter_def)
  show ?thesis using R g by (simp add: forbidden_fresh)
qed

theorem authorizationFilter_no_attributes_witness:
  "fst (nilAttributes buildsRequest []) = (None, None) \<and>
   authorizationFilter noNonASCII nilAttributes denyAll okHandler buildsRequest
     (freshWriter, []) =
     (\<lparr>wroteHeader = True, status = 403,
       body = ''Forbidden: '' @ [CHR 0x22] @ ''/osapi/v1beta1/builds'' @ [CHR 0x22] @
              '' No attributes''\<rparr>,
      [''GetAttributes''])"
proof -
  have n: "fst (nilAttributes buildsRequest []) = (None, None)"
    by (simp add: nilAttributes_def)
  have fresh: "\<not> wroteHeader freshWriter" by (simp add: freshWriter_def)
  have s: "snd (nilAttributes buildsRequest []) = [''GetAttributes'']"
    by (simp add: nilAttributes_def)
  have th: "authorizationFilter noNonASCII nilAttributes denyAll okHandler buildsRequest
     (freshWriter, []) =
     (forbidden noNonASCII ''No attributes'' freshWriter buildsRequest,
      snd (nilAttributes buildsRequest []))"
    using authorizationFilter_no_attributes [where GetAttributes = nilAttributes
      and req = buildsRequest and s = "[]" and nonASCII = noNonASCII and Authorize = denyAll
      and handler = okHandler and w = freshWriter, OF n]
    by blast
  have "forbidden noNonASCII ''No attributes'' freshWriter buildsRequest =
        \<lparr>wroteHeader = True, status = 403,
         body = ''Forbidden: '' @ [CHR 0x22] @ ''/osapi/v1beta1/builds'' @ [CHR 0x22] @
                '' No attributes''\<rparr>"
    by (simp add: forbidden_fresh fresh strconv_Quote_def quoteASCII_def buildsRequest_def
        freshWriter_def)
  then show ?thesis using th n s by simp
qed

section \<open>Properties of the bootstrap of the authorization rules\<close>

lemma strings_HasPrefix_refl: "strings_HasPrefix s s"
  by (induction s) auto

lemma strings_Contains_append: "strings_Contains ys sub \<Longrightarrow> strings_Contains (xs @ ys) sub"
  by (induction xs) auto

lemma strings_HasPrefix_iff: "strings_HasPrefix s p \<longleftrightarrow> prefix p s"
  by (induction s p rule: strings_HasPrefix.induct) auto

lemma strings_Contains_iff: "strings_Contains s substr \<longleftrightarrow> sublist substr s"
  by (induction s) (auto simp: strings_HasPrefix_iff sublist_Cons_right)

lemma strings_Contains_self: "strings_Contains s s"
  by (cases s) (auto simp: strings_HasPrefix_refl)

lemma not_found_text: "strings_Contains (pre @ name @ '' not found'') '' not found''"
proof -
  have "strings_Contains ((pre @ name) @ '' not found'') '' not found''"
    by (rule strings_Contains_append) (rule strings_Contains_self)
  then show ?thesis by simp
qed

lemma nilOrNotFound_simps:
  "nilOrNotFound None"
  "nilOrNotFound (Some (notFound kind name))"
proof -
  show "nilOrNotFound None" by (simp add: nilOrNotFound_def)
  have "strings_Contains ((kind @ '' '') @ name @ '' not found'') '' not found''"
    by (rule not_found_text)
  then show "nilOrNotFound (Some (notFound kind name))"
    by (simp add: nilOrNotFound_def notFound_def)
qed

lemma ensure_policy_exists:
  assumes "GetPolicy registry (MasterAuthorizationNamespace c) PolicyName s = ((Some p, None), s1)"
      and "Name (policyMeta p) = PolicyName"
  shows "ensureComponentAuthorizationRules registry PolicyName GBP GBPB c s = (s1, [])"
  using assms by (simp add: ensureComponentAuthorizationRules_def nilOrNotFound_simps)

subsection \<open>What one call changes in the store\<close>

lemma received_frame:
  "received call st = (f, st1) \<Longrightarrow>
   policies st1 = policies st \<and> policyBindings st1 = policyBindings st"
  by (auto simp: received_def split: list.splits)

lemma received_no_failures:
  "failures st = [] \<Longrightarrow> received call st = (None, st\<lparr>calls := calls st @ [call]\<rparr>)"
  by (simp add: received_def)

lemma storeGetPolicy_frame:
  "storeGetPolicy ns name st = (r, st1) \<Longrightarrow>
   policies st1 = policies st \<and> policyBindings st1 = policyBindings st"
  by (auto simp: storeGetPolicy_def split: prod.splits option.splits dest: received_frame)

lemma storeGetPolicyBinding_frame:
  "storeGetPolicyBinding ns name st = (r, st1) \<Longrightarrow>
   policies st1 = policies st \<and> policyBindings st1 = policyBindings st"
  by (auto simp: storeGetPolicyBinding_def split: prod.splits option.splits dest: received_frame)

lemma storeCreatePolicy_effect:
  "storeCreatePolicy ns p st = (e, st1) \<Longrightarrow>
   policyBindings st1 = policyBindings st \<and>
   (policies st1 = policies st \<or>
    map_of (policies st) (ns, Name (policyMeta p)) = None \<and>
    policies st1 = policies st @ [((ns, Name (policyMeta p)), p)])"
  by (auto simp: storeCreatePolicy_def Let_def split: prod.splits option.splits
      dest: received_frame)

lemma storeCreatePolicyBinding_effect:
  "storeCreatePolicyBinding ns b st = (e, st1) \<Longrightarrow>
   policies st1 = policies st \<and>
   (policyBindings st1 = policyBindings st \<or>
    map_of (policyBindings st) (ns, Name (bindingMeta b)) = None \<and>
    policyBindings st1 = policyBindings st @ [((ns, Name (bindingMeta b)), b)])"
  by (auto simp: storeCreatePolicyBinding_def Let_def split: prod.splits option.splits
      dest: received_frame)

lemma ensurePolicyBinding_effect:
  assumes "ensurePolicyBinding storeRegistry GBPB c st lg = (st', lg')"
  shows "policies st' = policies st \<and>
         (policyBindings st' = policyBindings st \<or>
          map_of (policyBindings st)
            (MasterAuthorizationNamespace c,
             Name (bindingMeta (GBPB (MasterAuthorizationNamespace c)))) = None \<and>
          policyBindings st' = policyBindings st @
            [((MasterAuthorizationNamespace c,
               Name (bindingMeta (GBPB (MasterAuthorizationNamespace c)))),
              GBPB (MasterAuthorizationNamespace c))])"
proof -
  let ?ns = "MasterAuthorizationNamespace c"
  obtain existing err s1 where g: "storeGetPolicyBinding ?ns ?ns st = ((existing, err), s1)"
    by (cases "storeGetPolicyBinding ?ns ?ns st") auto
  obtain cerr s2 where cr: "storeCreatePolicyBinding ?ns (GBPB ?ns) s1 = (cerr, s2)"
    by (cases "storeCreatePolicyBinding ?ns (GBPB ?ns) s1") auto
  have f1: "policies s1 = policies st" "policyBindings s1 = policyBindings st"
    using storeGetPolicyBinding_frame [OF g] by simp_all
  note f2 = storeCreatePolicyBinding_effect [OF cr]
  have "st' = s1 \<or> st' = s2"
    using assms g cr
    by (auto simp: ensurePolicyBinding_def storeRegistry_def Let_def
        split: if_splits option.splits)
  then show ?thesis using f1 f2 by auto
qed

lemma bootstrap_effect:
  "(policies (bootstrap PolicyName GBP GBPB c st) = policies st \<or>
    map_of (policies st)
      (MasterAuthorizationNamespace c,
       Name (policyMeta (GBP (MasterAuthorizationNamespace c)))) = None \<and>
    policies (bootstrap PolicyName GBP GBPB c st) = policies st @
      [((MasterAuthorizationNamespace c,
         Name (policyMeta (GBP (MasterAuthorizationNamespace c)))),
        GBP (MasterAuthorizationNamespace c))]) \<and>
   (policyBindings (bootstrap PolicyName GBP GBPB c st) = policyBindings st \<or>
    map_of (policyBindings st)
      (MasterAuthorizationNamespace c,
       Name (bindingMeta (GBPB (MasterAuthorizationNamespace c)))) = None \<and>
    policyBindings (bootstrap PolicyName GBP GBPB c st) = policyBindings st @
      [((MasterAuthorizationNamespace c,
         Name (bindingMeta (GBPB (MasterAuthorizationNamespace c)))),
        GBPB (MasterAuthorizationNamespace c))])"
proof -
  let ?ns = "MasterAuthorizationNamespace c"
  let ?st' = "bootstrap PolicyName GBP GBPB c st"
  obtain existing err s1 where g: "storeGetPolicy ?ns PolicyName st = ((existing, err), s1)"
    by (cases "storeGetPolicy ?ns PolicyName st") auto
  obtain cerr s2 where cr: "storeCreatePolicy ?ns (GBP ?ns) s1 = (cerr, s2)"
    by (cases "storeCreatePolicy ?ns (GBP ?ns) s1") auto
  have f1: "policies s1 = policies st" "policyBindings s1 = policyBindings st"
    using storeGetPolicy_frame [OF g] by simp_all
  note f2 = storeCreatePolicy_effect [OF cr]
  have "?st' = s1 \<or> (\<exists>lg. ?st' = fst (ensurePolicyBinding storeRegistry GBPB c s1 lg)) \<or>
        (\<exists>lg. ?st' = fst (ensurePolicyBinding storeRegistry GBPB c s2 lg))"
    using g cr
    by (auto simp: bootstrap_def ensureComponentAuthorizationRules_def storeRegistry_def Let_def
        split: if_splits option.splits)
  then consider (ret) "?st' = s1"
    | (skip) lg where "?st' = fst (ensurePolicyBinding storeRegistry GBPB c s1 lg)"
    | (made) lg where "?st' = fst (ensurePolicyBinding storeRegistry GBPB c s2 lg)"
    by blast
  then show ?thesis
  proof cases
    case ret
    then show ?thesis using f1 by simp
  next
    case skip
    obtain lg' where "ensurePolicyBinding storeRegistry GBPB c s1 lg = (?st', lg')"
      using skip by (cases "ensurePolicyBinding storeRegistry GBPB c s1 lg") auto
    from ensurePolicyBinding_effect [OF this] show ?thesis using f1 by auto
  next
    case made
    obtain lg' where "ensurePolicyBinding storeRegistry GBPB c s2 lg = (?st', lg')"
      using made by (cases "ensurePolicyBinding storeRegistry GBPB c s2 lg") auto
    from ensurePolicyBinding_effect [OF this] show ?thesis using f1 f2 by auto
  qed
qed

subsection \<open>The bootstrap against a store that does not fail\<close>

lemma wellKeyed_policy:
  "wellKeyed st \<Longrightarrow> map_of (policies st) (ns, n) = Some p \<Longrightarrow> Name (policyMeta p) = n"
  by (auto simp: wellKeyed_def list_all_iff dest!: map_of_SomeD)

lemma wellKeyed_binding:
  "wellKeyed st \<Longrightarrow> map_of (policyBindings st) (ns, n) = Some b \<Longrightarrow> Name (bindingMeta b) = n"
  by (auto simp: wellKeyed_def list_all_iff dest!: map_of_SomeD)

lemma bootstrap_policy_present:
  assumes "failures st = []"
      and "map_of (policies st) (MasterAuthorizationNamespace c, PolicyName) = Some p"
      and "Name (policyMeta p) = PolicyName"
  shows "bootstrap PolicyName GBP GBPB c st = st\<lparr>calls := calls st @ [''GetPolicy'']\<rparr>"
proof -
  have "GetPolicy storeRegistry (MasterAuthorizationNamespace c) PolicyName st =
        ((Some p, None), st\<lparr>calls := calls st @ [''GetPolicy'']\<rparr>)"
    using assms by (simp add: storeRegistry_def storeGetPolicy_def received_no_failures)
  then show ?thesis using assms(3) by (simp add: bootstrap_def ensure_policy_exists)
qed

lemma bootstrap_policy_absent_binding_present:
  assumes "failures st = []"
      and "map_of (policies st) (MasterAuthorizationNamespace c, PolicyName) = None"
      and "Name (policyMeta (GBP (MasterAuthorizationNamespace c))) = PolicyName"
      and "map_of (policyBindings st)
             (MasterAuthorizationNamespace c, MasterAuthorizationNamespace c) = Some b"
      and "Name (bindingMeta b) = MasterAuthorizationNamespace c"
  shows "bootstrap PolicyName GBP GBPB c st =
           st\<lparr>policies := policies st @ [((MasterAuthorizationNamespace c, PolicyName),
                                           GBP (MasterAuthorizationNamespace c))],
              calls := calls st @ [''GetPolicy'', ''CreatePolicy'', ''GetPolicyBinding'']\<rparr>"
  using assms
  by (simp add: bootstrap_def ensureComponentAuthorizationRules_def ensurePolicyBinding_def
      storeRegistry_def storeGetPolicy_def storeCreatePolicy_def storeGetPolicyBinding_def
      received_no_failures nilOrNotFound_simps Let_def)

lemma bootstrap_both_absent:
  assumes "failures st = []"
      and "map_of (policies st) (MasterAuthorizationNamespace c, PolicyName) = None"
      and "Name (policyMeta (GBP (MasterAuthorizationNamespace c))) = PolicyName"
      and "map_of (policyBindings st)
             (MasterAuthorizationNamespace c, MasterAuthorizationNamespace c) = None"
      and "Name (bindingMeta (GBPB (MasterAuthorizationNamespace c))) =
           MasterAuthorizationNamespace c"
  shows "bootstrap PolicyName GBP GBPB c st =
           st\<lparr>policies := policies st @ [((MasterAuthorizationNamespace c, PolicyName),
                                           GBP (MasterAuthorizationNamespace c))],
              policyBindings := policyBindings st @
                 [((MasterAuthorizationNamespace c, MasterAuthorizationNamespace c),
                   GBPB (MasterAuthorizationNamespace c))],
              calls := calls st @ [''GetPolicy'', ''CreatePolicy'', ''GetPolicyBinding'',
                                   ''CreatePolicyBinding'']\<rparr>"
  using assms
  by (simp add: bootstrap_def ensureComponentAuthorizationRules_def ensurePolicyBinding_def
      storeRegistry_def storeGetPolicy_def storeCreatePolicy_def storeGetPolicyBinding_def
      storeCreatePolicyBinding_def received_no_failures nilOrNotFound_simps Let_def)

lemma bootstrap_shape:
  assumes nf: "failures st = []"
      and wk: "wellKeyed st"
      and pn: "Name (policyMeta (GBP (MasterAuthorizationNamespace c))) = PolicyName"
      and bn: "Name (bindingMeta (GBPB (MasterAuthorizationNamespace c))) =
               MasterAuthorizationNamespace c"
  shows "\<exists>ps bs cs.
           bootstrap PolicyName GBP GBPB c st =
             st\<lparr>policies := policies st @ ps, policyBindings := policyBindings st @ bs,
                calls := calls st @ cs\<rparr> \<and>
           length ps \<le> 1 \<and> length bs \<le> 1 \<and>
           length (filter (\<lambda>x. x = ''CreatePolicy'') cs) = length ps \<and>
           length (filter (\<lambda>x. x = ''CreatePolicyBinding'') cs) = length bs \<and>
           (map_of (policies st) (MasterAuthorizationNamespace c, PolicyName) \<noteq> None \<longrightarrow>
              ps = [] \<and> bs = []) \<and>
           (\<exists>q. map_of (policies st @ ps) (MasterAuthorizationNamespace c, PolicyName) = Some q \<and>
                Name (policyMeta q) = PolicyName)"
proof (cases "map_of (policies st) (MasterAuthorizationNamespace c, PolicyName)")
  case (Some p)
  then have n: "Name (policyMeta p) = PolicyName" using wk by (rule wellKeyed_policy [rotated])
  have "bootstrap PolicyName GBP GBPB c st =
          st\<lparr>policies := policies st @ [], policyBindings := policyBindings st @ [],
             calls := calls st @ [''GetPolicy'']\<rparr>"
    using bootstrap_policy_present [OF nf Some n] by simp
  then show ?thesis using Some n by (intro exI [of _ "[]"] exI [of _ "[''GetPolicy'']"]) simp
next
  case None
  let ?ns = "MasterAuthorizationNamespace c"
  have after: "map_of (policies st @ [((?ns, PolicyName), GBP ?ns)]) (?ns, PolicyName) =
               Some (GBP ?ns)"
    using None by (simp add: map_add_def)
  show ?thesis
  proof (cases "map_of (policyBindings st) (?ns, ?ns)")
    case (Some b)
    then have n: "Name (bindingMeta b) = ?ns" using wk by (rule wellKeyed_binding [rotated])
    have "bootstrap PolicyName GBP GBPB c st =
          st\<lparr>policies := policies st @ [((?ns, PolicyName), GBP ?ns)],
             policyBindings := policyBindings st @ [],
             calls := calls st @ [''GetPolicy'', ''CreatePolicy'', ''GetPolicyBinding'']\<rparr>"
      using bootstrap_policy_absent_binding_present [where GBP = GBP, OF nf None pn Some n]
      by simp
    then show ?thesis using None after pn
      by (intro exI [of _ "[((?ns, PolicyName), GBP ?ns)]"] exI [of _ "[]"]
          exI [of _ "[''GetPolicy'', ''CreatePolicy'', ''GetPolicyBinding'']"]) simp
  next
    case bnone: None
    have "bootstrap PolicyName GBP GBPB c st =
          st\<lparr>policies := policies st @ [((?ns, PolicyName), GBP ?ns)],
             policyBindings := policyBindings st @ [((?ns, ?ns), GBPB ?ns)],
             calls := calls st @ [''GetPolicy'', ''CreatePolicy'', ''GetPolicyBinding'',
                                  ''CreatePolicyBinding'']\<rparr>"
      using bootstrap_both_absent [where GBP = GBP and GBPB = GBPB, OF nf None pn bnone bn]
      by simp
    then show ?thesis using None after pn
      by (intro exI [of _ "[((?ns, PolicyName), GBP ?ns)]"] exI [of _ "[((?ns, ?ns), GBPB ?ns)]"]
          exI [of _ "[''GetPolicy'', ''CreatePolicy'', ''GetPolicyBinding'',
                      ''CreatePolicyBinding'']"]) simp
  qed
qed

lemma bootstrap_twice_no_failures:
  assumes nf: "failures st = []"
      and wk: "wellKeyed st"
      and pn: "Name (policyMeta (GBP (MasterAuthorizationNamespace c))) = PolicyName"
      and bn: "Name (bindingMeta (GBPB (MasterAuthorizationNamespace c))) =
               MasterAuthorizationNamespace c"
  shows "callCount ''CreatePolicy''
           (bootstrap PolicyName GBP GBPB c (bootstrap PolicyName GBP GBPB c st)) \<le>
           callCount ''CreatePolicy'' st + 1 \<and>
         callCount ''CreatePolicyBinding''
           (bootstrap PolicyName GBP GBPB c (bootstrap PolicyName GBP GBPB c st)) \<le>
           callCount ''CreatePolicyBinding'' st + 1 \<and>
         policies (bootstrap PolicyName GBP GBPB c (bootstrap PolicyName GBP GBPB c st)) =
           policies (bootstrap PolicyName GBP GBPB c st) \<and>
         policyBindings (bootstrap PolicyName GBP GBPB c (bootstrap PolicyName GBP GBPB c st)) =
           policyBindings (bootstrap PolicyName GBP GBPB c st) \<and>
         (map_of (policies st) (MasterAuthorizationNamespace c, PolicyName) \<noteq> None \<longrightarrow>
            callCount ''CreatePolicy'' (bootstrap PolicyName GBP GBPB c st) =
              callCount ''CreatePolicy'' st \<and>
            callCount ''CreatePolicyBinding'' (bootstrap PolicyName GBP GBPB c st) =
              callCount ''CreatePolicyBinding'' st)"
proof -
  let ?ns = "MasterAuthorizationNamespace c"
  let ?st1 = "bootstrap PolicyName GBP GBPB c st"
  from bootstrap_shape [where GBP = GBP and GBPB = GBPB, OF nf wk pn bn] obtain ps bs cs q where
    first: "?st1 = st\<lparr>policies := policies st @ ps, policyBindings := policyBindings st @ bs,
                       calls := calls st @ cs\<rparr>"
    and sizes: "length ps \<le> 1" "length bs \<le> 1"
    and counts: "length (filter (\<lambda>x. x = ''CreatePolicy'') cs) = length ps"
                "length (filter (\<lambda>x. x = ''CreatePolicyBinding'') cs) = length bs"
    and present: "map_of (policies st) (?ns, PolicyName) \<noteq> None \<longrightarrow> ps = [] \<and> bs = []"
    and q: "map_of (policies st @ ps) (?ns, PolicyName) = Some q" "Name (policyMeta q) = PolicyName"
    by blast
  have q1: "map_of (policies ?st1) (?ns, PolicyName) = Some q"
    using q(1) by (simp add: first)
  have nf1: "failures ?st1 = []" using nf by (simp add: first)
  have second: "bootstrap PolicyName GBP GBPB c ?st1 = ?st1\<lparr>calls := calls ?st1 @ [''GetPolicy'']\<rparr>"
    by (rule bootstrap_policy_present [OF nf1 q1 q(2)])
  have a: "map_of (policies st) (?ns, PolicyName) \<noteq> None \<longrightarrow>
            callCount ''CreatePolicy'' ?st1 = callCount ''CreatePolicy'' st \<and>
            callCount ''CreatePolicyBinding'' ?st1 = callCount ''CreatePolicyBinding'' st"
    using present counts by (auto simp: first callCount_def)
  have b: "callCount ''CreatePolicy'' (bootstrap PolicyName GBP GBPB c ?st1) \<le>
           callCount ''CreatePolicy'' st + 1"
    unfolding second using sizes counts by (simp add: first callCount_def)
  have c: "callCount ''CreatePolicyBinding'' (bootstrap PolicyName GBP GBPB c ?st1) \<le>
           callCount ''CreatePolicyBinding'' st + 1"
    unfolding second using sizes counts by (simp add: first callCount_def)
  have f: "policies (bootstrap PolicyName GBP GBPB c ?st1) = policies ?st1"
    unfolding second by simp
  have g: "policyBindings (bootstrap PolicyName GBP GBPB c ?st1) = policyBindings ?st1"
    unfolding second by simp
  show ?thesis using a b c f g by blast
qed

subsection \<open>The bootstrap against a store that may fail\<close>

lemma bootstrap_twice_lengths:
  "length (policies (bootstrap PolicyName GBP GBPB c (bootstrap PolicyName GBP GBPB c st))) \<le>
     length (policies st) + 1 \<and>
   length (policyBindings
             (bootstrap PolicyName GBP GBPB c (bootstrap PolicyName GBP GBPB c st))) \<le>
     length (policyBindings st) + 1"
proof -
  let ?st1 = "bootstrap PolicyName GBP GBPB c st"
  note e1 = bootstrap_effect [of PolicyName GBP GBPB c st]
  note e2 = bootstrap_effect [of PolicyName GBP GBPB c ?st1]
  have p: "length (policies (bootstrap PolicyName GBP GBPB c ?st1)) \<le> length (policies st) + 1"
    using e1 e2 by (auto simp: map_add_def)
  have b: "length (policyBindings (bootstrap PolicyName GBP GBPB c ?st1)) \<le>
           length (policyBindings st) + 1"
    using e1 e2 by (auto simp: map_add_def)
  show ?thesis using p b by blast
qed

lemma bootstrap_both_present:
  assumes pn: "Name (policyMeta (GBP (MasterAuthorizationNamespace c))) = PolicyName"
      and bn: "Name (bindingMeta (GBPB (MasterAuthorizationNamespace c))) =
               MasterAuthorizationNamespace c"
      and p: "map_of (policies st) (MasterAuthorizationNamespace c, PolicyName) \<noteq> None"
      and b: "map_of (policyBindings st)
                (MasterAuthorizationNamespace c, MasterAuthorizationNamespace c) \<noteq> None"
  shows "policies (bootstrap PolicyName GBP GBPB c st) = policies st \<and>
         policyBindings (bootstrap PolicyName GBP GBPB c st) = policyBindings st"
  using bootstrap_effect [of PolicyName GBP GBPB c st] pn bn p b by auto

text \<open>
  Claim C3. The bootstrap runs against the modelled store, with bootstrap objects that
  carry the expected names. When the global Policy (named \<open>PolicyName\<close>) and the global
  PolicyBinding (named by the master authorization namespace) are both stored, a run
  stores nothing, whatever calls the backend fails. Over two consecutive runs from any
  store, whatever calls the backend fails, at most one Policy and at most one
  PolicyBinding are added. When the backend fails no call and the stored objects carry
  the names they are stored under, the store is asked at most once to create the Policy
  and at most once to create the PolicyBinding over the two runs, the second run adds
  nothing to what the first left, and a run that finds the Policy asks for no creation.
\<close>

theorem bootstrap_creates_at_most_once:
  assumes pn: "Name (policyMeta (GBP (MasterAuthorizationNamespace c))) = PolicyName"
      and bn: "Name (bindingMeta (GBPB (MasterAuthorizationNamespace c))) =
               MasterAuthorizationNamespace c"
  shows "(map_of (policies st) (MasterAuthorizationNamespace c, PolicyName) \<noteq> None \<and>
          map_of (policyBindings st)
            (MasterAuthorizationNamespace c, MasterAuthorizationNamespace c) \<noteq> None \<longrightarrow>
            policies (bootstrap PolicyName GBP GBPB c st) = policies st \<and>
            policyBindings (bootstrap PolicyName GBP GBPB c st) = policyBindings st) \<and>
         length (policies (bootstrap PolicyName GBP GBPB c (bootstrap PolicyName GBP GBPB c st))) \<le>
           length (policies st) + 1 \<and>
         length (policyBindings
                   (bootstrap PolicyName GBP GBPB c (bootstrap PolicyName GBP GBPB c st))) \<le>
           length (policyBindings st) + 1 \<and>
         (failures st = [] \<and> wellKeyed st \<longrightarrow>
            callCount ''CreatePolicy''
              (bootstrap PolicyName GBP GBPB c (bootstrap PolicyName GBP GBPB c st)) \<le>
              callCount ''CreatePolicy'' st + 1 \<and>
            callCount ''CreatePolicyBinding''
              (bootstrap PolicyName GBP GBPB c (bootstrap PolicyName GBP GBPB c st)) \<le>
              callCount ''CreatePolicyBinding'' st + 1 \<and>
            policies (bootstrap PolicyName GBP GBPB c (bootstrap PolicyName GBP GBPB c st)) =
              policies (bootstrap PolicyName GBP GBPB c st) \<and>
            policyBindings (bootstrap PolicyName GBP GBPB c (bootstrap PolicyName GBP GBPB c st)) =
              policyBindings (bootstrap PolicyName GBP GBPB c st) \<and>
            (map_of (policies st) (MasterAuthorizationNamespace c, PolicyName) \<noteq> None \<longrightarrow>
               callCount ''CreatePolicy'' (bootstrap PolicyName GBP GBPB c st) =
                 callCount ''CreatePolicy'' st \<and>
               callCount ''CreatePolicyBinding'' (bootstrap PolicyName GBP GBPB c st) =
                 callCount ''CreatePolicyBinding'' st))"
proof -
  have a: "map_of (policies st) (MasterAuthorizationNamespace c, PolicyName) \<noteq> None \<and>
          map_of (policyBindings st)
            (MasterAuthorizationNamespace c, MasterAuthorizationNamespace c) \<noteq> None \<longrightarrow>
            policies (bootstrap PolicyName GBP GBPB c st) = policies st \<and>
            policyBindings (bootstrap PolicyName GBP GBPB c st) = policyBindings st"
    using bootstrap_both_present [where GBP = GBP and GBPB = GBPB, OF pn bn] by blast
  note b = bootstrap_twice_lengths [of PolicyName GBP GBPB c st]
  have c: "failures st = [] \<and> wellKeyed st \<longrightarrow>
            callCount ''CreatePolicy''
              (bootstrap PolicyName GBP GBPB c (bootstrap PolicyName GBP GBPB c st)) \<le>
              callCount ''CreatePolicy'' st + 1 \<and>
            callCount ''CreatePolicyBinding''
              (bootstrap PolicyName GBP GBPB c (bootstrap PolicyName GBP GBPB c st)) \<le>
              callCount ''CreatePolicyBinding'' st + 1 \<and>
            policies (bootstrap PolicyName GBP GBPB c (bootstrap PolicyName GBP GBPB c st)) =
              policies (bootstrap PolicyName GBP GBPB c st) \<and>
            policyBindings (bootstrap PolicyName GBP GBPB c (bootstrap PolicyName GBP GBPB c st)) =
              policyBindings (bootstrap PolicyName GBP GBPB c st) \<and>
            (map_of (policies st) (MasterAuthorizationNamespace c, PolicyName) \<noteq> None \<longrightarrow>
               callCount ''CreatePolicy'' (bootstrap PolicyName GBP GBPB c st) =
                 callCount ''CreatePolicy'' st \<and>
               callCount ''CreatePolicyBinding'' (bootstrap PolicyName GBP GBPB c st) =
                 callCount ''CreatePolicyBinding'' st)"
    using bootstrap_twice_no_failures [where GBP = GBP and GBPB = GBPB and st = st, OF _ _ pn bn]
    by blast
  show ?thesis using a b c by blast
qed

theorem bootstrap_creates_at_most_once_witness:
  "Name (policyMeta (exampleBootstrapPolicy (MasterAuthorizationNamespace exampleConfig))) =
     ''global'' \<and>
   Name (bindingMeta (exampleBootstrapPolicyBinding (MasterAuthorizationNamespace exampleConfig))) =
     MasterAuthorizationNamespace exampleConfig \<and>
   failures emptyStore = [] \<and> wellKeyed emptyStore \<and>
   callCount ''CreatePolicy''
     (bootstrap ''global'' exampleBootstrapPolicy exampleBootstrapPolicyBinding exampleConfig
       (bootstrap ''global'' exampleBootstrapPolicy exampleBootstrapPolicyBinding exampleConfig
         emptyStore)) \<le> 1 \<and>
   callCount ''CreatePolicyBinding''
     (bootstrap ''global'' exampleBootstrapPolicy exampleBootstrapPolicyBinding exampleConfig
       (bootstrap ''global'' exampleBootstrapPolicy exampleBootstrapPolicyBinding exampleConfig
         emptyStore)) \<le> 1 \<and>
   calls
     (bootstrap ''global'' exampleBootstrapPolicy exampleBootstrapPolicyBinding exampleConfig
       (bootstrap ''global'' exampleBootstrapPolicy exampleBootstrapPolicyBinding exampleConfig
         emptyStore)) =
     [''GetPolicy'', ''CreatePolicy'', ''GetPolicyBinding'', ''CreatePolicyBinding'',
      ''GetPolicy''] \<and>
   map_of (policies bootstrappedStore) (MasterAuthorizationNamespace exampleConfig, ''global'') \<noteq>
     None \<and>
   map_of (policyBindings bootstrappedStore)
     (MasterAuthorizationNamespace exampleConfig, MasterAuthorizationNamespace exampleConfig) \<noteq>
     None \<and>
   policies (bootstrap ''global'' exampleBootstrapPolicy exampleBootstrapPolicyBinding
               exampleConfig bootstrappedStore) = policies bootstrappedStore \<and>
   policyBindings (bootstrap ''global'' exampleBootstrapPolicy exampleBootstrapPolicyBinding
                     exampleConfig bootstrappedStore) = policyBindings bootstrappedStore \<and>
   failures bootstrappedStore = [] \<and> wellKeyed bootstrappedStore \<and>
   callCount ''CreatePolicy''
     (bootstrap ''global'' exampleBootstrapPolicy exampleBootstrapPolicyBinding exampleConfig
        bootstrappedStore) = 0 \<and>
   callCount ''CreatePolicyBinding''
     (bootstrap ''global'' exampleBootstrapPolicy exampleBootstrapPolicyBinding exampleConfig
        bootstrappedStore) = 0 \<and>
   length (policies
     (bootstrap ''global'' exampleBootstrapPolicy exampleBootstrapPolicyBinding exampleConfig
       (bootstrap ''global'' exampleBootstrapPolicy exampleBootstrapPolicyBinding exampleConfig
         failingStore))) \<le> 1 \<and>
   calls
     (bootstrap ''global'' exampleBootstrapPolicy exampleBootstrapPolicyBinding exampleConfig
       (bootstrap ''global'' exampleBootstrapPolicy exampleBootstrapPolicyBinding exampleConfig
         failingStore)) =
     [''GetPolicy'', ''CreatePolicy'', ''GetPolicyBinding'', ''CreatePolicyBinding'',
      ''GetPolicy'', ''CreatePolicy'', ''GetPolicyBinding'']"
proof -
  have nf0: "failures emptyStore = []" by (simp add: emptyStore_def)
  have wk0: "wellKeyed emptyStore" by (simp add: wellKeyed_def emptyStore_def)
  have pn: "Name (policyMeta (exampleBootstrapPolicy (MasterAuthorizationNamespace exampleConfig))) =
     ''global''"
    by (simp add: exampleBootstrapPolicy_def)
  have bn: "Name (bindingMeta (exampleBootstrapPolicyBinding
               (MasterAuthorizationNamespace exampleConfig))) =
     MasterAuthorizationNamespace exampleConfig"
    by (simp add: exampleBootstrapPolicyBinding_def)
  have p1: "map_of (policies bootstrappedStore)
              (MasterAuthorizationNamespace exampleConfig, ''global'') \<noteq> None"
    by (simp add: bootstrappedStore_def exampleConfig_def)
  have b1: "map_of (policyBindings bootstrappedStore)
     (MasterAuthorizationNamespace exampleConfig, MasterAuthorizationNamespace exampleConfig) \<noteq>
     None"
    by (simp add: bootstrappedStore_def exampleConfig_def)
  have c0: "callCount ''CreatePolicy'' emptyStore = 0"
           "callCount ''CreatePolicyBinding'' emptyStore = 0"
    by (simp_all add: callCount_def emptyStore_def)
  have l0: "length (policies failingStore) = 0" by (simp add: failingStore_def)
  note th0 = bootstrap_creates_at_most_once [where GBP = exampleBootstrapPolicy
      and GBPB = exampleBootstrapPolicyBinding and st = emptyStore, OF pn bn]
  note th1 = bootstrap_creates_at_most_once [where GBP = exampleBootstrapPolicy
      and GBPB = exampleBootstrapPolicyBinding and st = bootstrappedStore, OF pn bn]
  note th2 = bootstrap_creates_at_most_once [where GBP = exampleBootstrapPolicy
      and GBPB = exampleBootstrapPolicyBinding and st = failingStore, OF pn bn]
  have once: "callCount ''CreatePolicy''
     (bootstrap ''global'' exampleBootstrapPolicy exampleBootstrapPolicyBinding exampleConfig
       (bootstrap ''global'' exampleBootstrapPolicy exampleBootstrapPolicyBinding exampleConfig
         emptyStore)) \<le> 1"
    "callCount ''CreatePolicyBinding''
     (bootstrap ''global'' exampleBootstrapPolicy exampleBootstrapPolicyBinding exampleConfig
       (bootstrap ''global'' exampleBootstrapPolicy exampleBootstrapPolicyBinding exampleConfig
         emptyStore)) \<le> 1"
    using th0 nf0 wk0 c0 by simp_all
  have same: "policies (bootstrap ''global'' exampleBootstrapPolicy exampleBootstrapPolicyBinding
               exampleConfig bootstrappedStore) = policies bootstrappedStore"
    "policyBindings (bootstrap ''global'' exampleBootstrapPolicy exampleBootstrapPolicyBinding
                     exampleConfig bootstrappedStore) = policyBindings bootstrappedStore"
    using th1 p1 b1 by blast+
  have nf1: "failures bootstrappedStore = []" by (simp add: bootstrappedStore_def)
  have wk1: "wellKeyed bootstrappedStore" by (simp add: wellKeyed_def bootstrappedStore_def)
  have c1: "callCount ''CreatePolicy'' bootstrappedStore = 0"
           "callCount ''CreatePolicyBinding'' bootstrappedStore = 0"
    by (simp_all add: callCount_def bootstrappedStore_def)
  have none: "callCount ''CreatePolicy''
     (bootstrap ''global'' exampleBootstrapPolicy exampleBootstrapPolicyBinding exampleConfig
        bootstrappedStore) = 0"
    "callCount ''CreatePolicyBinding''
     (bootstrap ''global'' exampleBootstrapPolicy exampleBootstrapPolicyBinding exampleConfig
        bootstrappedStore) = 0"
    using th1 nf1 wk1 p1 c1 by simp_all
  have fl: "length (policies
     (bootstrap ''global'' exampleBootstrapPolicy exampleBootstrapPolicyBinding exampleConfig
       (bootstrap ''global'' exampleBootstrapPolicy exampleBootstrapPolicyBinding exampleConfig
         failingStore))) \<le> 1"
    using th2 l0 by simp
  have run: "calls
     (bootstrap ''global'' exampleBootstrapPolicy exampleBootstrapPolicyBinding exampleConfig
       (bootstrap ''global'' exampleBootstrapPolicy exampleBootstrapPolicyBinding exampleConfig
         emptyStore)) =
     [''GetPolicy'', ''CreatePolicy'', ''GetPolicyBinding'', ''CreatePolicyBinding'',
      ''GetPolicy'']"
    by (simp add: bootstrap_def ensureComponentAuthorizationRules_def ensurePolicyBinding_def
      storeRegistry_def storeGetPolicy_def storeCreatePolicy_def storeGetPolicyBinding_def
      storeCreatePolicyBinding_def received_def nilOrNotFound_simps Let_def emptyStore_def
      exampleConfig_def exampleBootstrapPolicy_def exampleBootstrapPolicyBinding_def)
  have nfe: "\<not> nilOrNotFound (Some (OtherError ''backend unavailable''))"
    by (simp add: nilOrNotFound_def)
  have frun: "calls
     (bootstrap ''global'' exampleBootstrapPolicy exampleBootstrapPolicyBinding exampleConfig
       (bootstrap ''global'' exampleBootstrapPolicy exampleBootstrapPolicyBinding exampleConfig
         failingStore)) =
     [''GetPolicy'', ''CreatePolicy'', ''GetPolicyBinding'', ''CreatePolicyBinding'',
      ''GetPolicy'', ''CreatePolicy'', ''GetPolicyBinding'']"
    by (simp add: bootstrap_def ensureComponentAuthorizationRules_def ensurePolicyBinding_def
      storeRegistry_def storeGetPolicy_def storeCreatePolicy_def storeGetPolicyBinding_def
      storeCreatePolicyBinding_def received_def nilOrNotFound_simps nfe Let_def failingStore_def
      exampleConfig_def exampleBootstrapPolicy_def exampleBootstrapPolicyBinding_def)
  show ?thesis using nf0 wk0 pn bn p1 b1 once same nf1 wk1 none run fl frun by blast
qed

text \<open>
  Claim C9. When the registry returns the global Policy under the expected name, the
  bootstrap ends in the state that this one call left, with nothing logged, whatever the
  other three methods of the registry are: the PolicyBinding is neither read nor
  created. Against the modelled store with the Policy present and the PolicyBinding
  absent, when the backend does not fail the call, the PolicyBinding is still absent
  after the bootstrap and the only call the store received is \<open>GetPolicy\<close>.
\<close>

theorem bootstrap_returns_when_policy_exists:
  "(GetPolicy registry (MasterAuthorizationNamespace c) PolicyName s = ((Some p, None), s1) \<and>
    Name (policyMeta p) = PolicyName \<longrightarrow>
      (\<forall>registry'. GetPolicy registry' = GetPolicy registry \<longrightarrow>
         ensureComponentAuthorizationRules registry' PolicyName GBP GBPB c s = (s1, []))) \<and>
   (failures st = [] \<and>
    map_of (policies st) (MasterAuthorizationNamespace c, PolicyName) = Some q \<and>
    Name (policyMeta q) = PolicyName \<and>
    map_of (policyBindings st)
      (MasterAuthorizationNamespace c, MasterAuthorizationNamespace c) = None \<longrightarrow>
      map_of (policyBindings (bootstrap PolicyName GBP GBPB c st))
        (MasterAuthorizationNamespace c, MasterAuthorizationNamespace c) = None \<and>
      policyBindings (bootstrap PolicyName GBP GBPB c st) = policyBindings st \<and>
      calls (bootstrap PolicyName GBP GBPB c st) = calls st @ [''GetPolicy''])"
proof (intro conjI impI allI)
  fix registry' :: "'a Registry"
  assume a: "GetPolicy registry (MasterAuthorizationNamespace c) PolicyName s =
               ((Some p, None), s1) \<and> Name (policyMeta p) = PolicyName"
    and r: "GetPolicy registry' = GetPolicy registry"
  have "GetPolicy registry' (MasterAuthorizationNamespace c) PolicyName s = ((Some p, None), s1)"
    using a r by simp
  then show "ensureComponentAuthorizationRules registry' PolicyName GBP GBPB c s = (s1, [])"
    using a by (simp add: ensure_policy_exists)
next
  assume a: "failures st = [] \<and>
    map_of (policies st) (MasterAuthorizationNamespace c, PolicyName) = Some q \<and>
    Name (policyMeta q) = PolicyName \<and>
    map_of (policyBindings st)
      (MasterAuthorizationNamespace c, MasterAuthorizationNamespace c) = None"
  then have run: "bootstrap PolicyName GBP GBPB c st = st\<lparr>calls := calls st @ [''GetPolicy'']\<rparr>"
    by (simp add: bootstrap_policy_present)
  show "map_of (policyBindings (bootstrap PolicyName GBP GBPB c st))
        (MasterAuthorizationNamespace c, MasterAuthorizationNamespace c) = None"
    using a by (simp add: run)
  show "policyBindings (bootstrap PolicyName GBP GBPB c st) = policyBindings st"
    by (simp add: run)
  show "calls (bootstrap PolicyName GBP GBPB c st) = calls st @ [''GetPolicy'']"
    by (simp add: run)
qed

theorem bootstrap_returns_when_policy_exists_witness:
  "failures policyOnlyStore = [] \<and>
   map_of (policies policyOnlyStore) (MasterAuthorizationNamespace exampleConfig, ''global'') =
     Some (Policy \<lparr>Name = ''global'', Namespace = ''master''\<rparr>) \<and>
   map_of (policyBindings policyOnlyStore)
     (MasterAuthorizationNamespace exampleConfig, MasterAuthorizationNamespace exampleConfig) =
     None \<and>
   GetPolicy storeRegistry (MasterAuthorizationNamespace exampleConfig) ''global'' policyOnlyStore =
     ((Some (Policy \<lparr>Name = ''global'', Namespace = ''master''\<rparr>), None),
      policyOnlyStore\<lparr>calls := [''GetPolicy'']\<rparr>) \<and>
   ensureComponentAuthorizationRules storeRegistry ''global'' exampleBootstrapPolicy
     exampleBootstrapPolicyBinding exampleConfig policyOnlyStore =
     (policyOnlyStore\<lparr>calls := [''GetPolicy'']\<rparr>, []) \<and>
   policyBindings (bootstrap ''global'' exampleBootstrapPolicy exampleBootstrapPolicyBinding
                     exampleConfig policyOnlyStore) = [] \<and>
   calls (bootstrap ''global'' exampleBootstrapPolicy exampleBootstrapPolicyBinding
            exampleConfig policyOnlyStore) = [''GetPolicy'']"
proof -
  let ?p = "Policy \<lparr>Name = ''global'', Namespace = ''master''\<rparr>"
  have nf: "failures policyOnlyStore = []" by (simp add: policyOnlyStore_def)
  have p: "map_of (policies policyOnlyStore)
             (MasterAuthorizationNamespace exampleConfig, ''global'') = Some ?p"
    by (simp add: policyOnlyStore_def exampleConfig_def)
  have b: "map_of (policyBindings policyOnlyStore)
     (MasterAuthorizationNamespace exampleConfig, MasterAuthorizationNamespace exampleConfig) =
     None"
    by (simp add: policyOnlyStore_def)
  have g: "GetPolicy storeRegistry (MasterAuthorizationNamespace exampleConfig) ''global''
             policyOnlyStore = ((Some ?p, None), policyOnlyStore\<lparr>calls := [''GetPolicy'']\<rparr>)"
    by (simp add: storeRegistry_def storeGetPolicy_def received_def policyOnlyStore_def
        exampleConfig_def)
  have n: "Name (policyMeta ?p) = ''global''" by simp
  note th = bootstrap_returns_when_policy_exists [where registry = storeRegistry
      and c = exampleConfig and PolicyName = "''global''" and s = policyOnlyStore and p = ?p
      and ?s1.0 = "policyOnlyStore\<lparr>calls := [''GetPolicy'']\<rparr>"
      and GBP = exampleBootstrapPolicy and GBPB = exampleBootstrapPolicyBinding
      and st = policyOnlyStore and q = ?p]
  have e: "ensureComponentAuthorizationRules storeRegistry ''global'' exampleBootstrapPolicy
     exampleBootstrapPolicyBinding exampleConfig policyOnlyStore =
     (policyOnlyStore\<lparr>calls := [''GetPolicy'']\<rparr>, [])"
    using th g n by blast
  have pb: "policyBindings (bootstrap ''global'' exampleBootstrapPolicy
              exampleBootstrapPolicyBinding exampleConfig policyOnlyStore) =
            policyBindings policyOnlyStore"
    using th nf p b n by blast
  have cl: "calls (bootstrap ''global'' exampleBootstrapPolicy exampleBootstrapPolicyBinding
            exampleConfig policyOnlyStore) = calls policyOnlyStore @ [''GetPolicy'']"
    using th nf p b n by blast
  have pb': "policyBindings (bootstrap ''global'' exampleBootstrapPolicy
              exampleBootstrapPolicyBinding exampleConfig policyOnlyStore) = []"
    using pb by (simp add: policyOnlyStore_def)
  have cl': "calls (bootstrap ''global'' exampleBootstrapPolicy exampleBootstrapPolicyBinding
            exampleConfig policyOnlyStore) = [''GetPolicy'']"
    using cl by (simp add: policyOnlyStore_def)
  show ?thesis using nf p b g e pb' cl' by blast
qed

section \<open>Properties of the installation of the protected API\<close>

lemma userPath: "OpenShiftAPIPrefixV1Beta1 @ ''/users/{name}'' = ''/osapi/v1beta1/users/{name}''"
  by (simp add: OpenShiftAPIPrefixV1Beta1_def OpenShiftAPIPrefix_def)

lemma prefixPath: "OpenShiftAPIPrefixV1Beta1 = ''/osapi/v1beta1''"
  by (simp add: OpenShiftAPIPrefixV1Beta1_def OpenShiftAPIPrefix_def)

lemma addCurrentUserFilter_eq:
  "addCurrentUserFilter f rs n =
     (map (\<lambda>r. if isCurrentUserRoute r then r\<lparr>Filters := Filters r @ [f]\<rparr> else r) rs,
      n + length (filter isCurrentUserRoute rs))"
  by (induction rs arbitrary: n) (auto simp: userPath isCurrentUserRoute_def)

lemma filter_injected:
  "filter isCurrentUserRoute
     (map (\<lambda>r. if isCurrentUserRoute r then r\<lparr>Filters := Filters r @ [f]\<rparr> else r) rs) =
   map (\<lambda>r. r\<lparr>Filters := Filters r @ [f]\<rparr>) (filter isCurrentUserRoute rs)"
  by (induction rs) (auto simp: isCurrentUserRoute_def)

lemma scanWebServices_eq:
  "\<exists>root'. scanWebServices f svcs i root n =
     (map (scanned f) svcs, root', n + length (currentUserRoutes svcs)) \<and>
     (root' = root \<or> (\<exists>r. root' = Some r \<and> i \<le> r \<and> r < i + length svcs \<and>
                          rootPath (svcs ! (r - i)) = ''/''))"
proof (induction svcs arbitrary: i root n)
  case Nil
  then show ?case by (simp add: currentUserRoutes_def)
next
  case (Cons svc rest)
  show ?case
  proof (cases "rootPath svc = ''/''")
    case True
    from Cons [of "i + 1" "Some i" n] obtain root' where
      ih: "scanWebServices f rest (i + 1) (Some i) n =
             (map (scanned f) rest, root', n + length (currentUserRoutes rest))"
      and r: "root' = Some i \<or> (\<exists>r. root' = Some r \<and> i + 1 \<le> r \<and> r < i + 1 + length rest \<and>
                          rootPath (rest ! (r - (i + 1))) = ''/'')"
      by blast
    have res: "scanWebServices f (svc # rest) i root n =
          (map (scanned f) (svc # rest), root', n + length (currentUserRoutes (svc # rest)))"
      using True ih by (simp add: scanned_def currentUserRoutes_def)
    have "\<exists>r. root' = Some r \<and> i \<le> r \<and> r < i + length (svc # rest) \<and>
                          rootPath ((svc # rest) ! (r - i)) = ''/''"
      using r
    proof
      assume "root' = Some i"
      then show ?thesis using True by simp
    next
      assume "\<exists>r. root' = Some r \<and> i + 1 \<le> r \<and> r < i + 1 + length rest \<and>
                          rootPath (rest ! (r - (i + 1))) = ''/''"
      then obtain r where rr: "root' = Some r" "i + 1 \<le> r" "r < i + 1 + length rest"
        "rootPath (rest ! (r - (i + 1))) = ''/''" by blast
      then have "(svc # rest) ! (r - i) = rest ! (r - (i + 1))"
        by (simp add: nth_Cons')
      then show ?thesis using rr by auto
    qed
    then show ?thesis using res by blast
  next
    case False
    let ?n' = "if rootPath svc = ''/osapi/v1beta1''
               then n + length (filter isCurrentUserRoute (routes svc)) else n"
    from Cons [of "i + 1" root ?n'] obtain root' where
      ih: "scanWebServices f rest (i + 1) root ?n' =
             (map (scanned f) rest, root', ?n' + length (currentUserRoutes rest))"
      and r: "root' = root \<or> (\<exists>r. root' = Some r \<and> i + 1 \<le> r \<and> r < i + 1 + length rest \<and>
                          rootPath (rest ! (r - (i + 1))) = ''/'')"
      by blast
    have res: "scanWebServices f (svc # rest) i root n =
          (map (scanned f) (svc # rest), root', n + length (currentUserRoutes (svc # rest)))"
      using False ih
      by (auto simp: scanned_def currentUserRoutes_def prefixPath addCurrentUserFilter_eq Let_def)
    have "root' = root \<or> (\<exists>r. root' = Some r \<and> i \<le> r \<and> r < i + length (svc # rest) \<and>
                          rootPath ((svc # rest) ! (r - i)) = ''/'')"
      using r
    proof
      assume "root' = root"
      then show ?thesis by simp
    next
      assume "\<exists>r. root' = Some r \<and> i + 1 \<le> r \<and> r < i + 1 + length rest \<and>
                          rootPath (rest ! (r - (i + 1))) = ''/''"
      then obtain r where rr: "root' = Some r" "i + 1 \<le> r" "r < i + 1 + length rest"
        "rootPath (rest ! (r - (i + 1))) = ''/''" by blast
      then have "(svc # rest) ! (r - i) = rest ! (r - (i + 1))"
        by (simp add: nth_Cons')
      then show ?thesis using rr by auto
    qed
    then show ?thesis using res by blast
  qed
qed

lemma currentUserRoutes_scanned:
  "currentUserRoutes (map (scanned f) svcs) =
     map (\<lambda>r. r\<lparr>Filters := Filters r @ [f]\<rparr>) (currentUserRoutes svcs)"
  by (induction svcs) (auto simp: currentUserRoutes_def scanned_def filter_injected)

lemma currentUserRoutes_append_new:
  "currentUserRoutes (svcs @ [newWebService]) = currentUserRoutes svcs"
  by (simp add: currentUserRoutes_def newWebService_def)

lemma currentUserRoutes_update:
  "r < length svcs \<Longrightarrow> rootPath (svcs ! r) \<noteq> ''/osapi/v1beta1'' \<Longrightarrow>
   currentUserRoutes (svcs[r := initAPIVersionRoute (svcs ! r) v]) = currentUserRoutes svcs"
proof (induction svcs arbitrary: r)
  case Nil
  then show ?case by simp
next
  case (Cons svc rest)
  show ?case
  proof (cases r)
    case 0
    then show ?thesis using Cons.prems
      by (simp add: currentUserRoutes_def initAPIVersionRoute_def)
  next
    case (Suc k)
    then have "currentUserRoutes (rest[k := initAPIVersionRoute (rest ! k) v]) =
               currentUserRoutes rest"
      using Cons by simp
    then show ?thesis using Suc by (simp add: currentUserRoutes_def)
  qed
qed

lemma scanned_rootPath: "rootPath (scanned f svc) = rootPath svc"
  by (simp add: scanned_def)

lemma installAPIs_append:
  "installAPIs (is @ [j]) safe extra =
     (case installAPIs is safe extra of
        Inl stop \<Rightarrow> Inl stop
      | Inr (safe', extra') \<Rightarrow>
          (case j safe' of
             Inl stop \<Rightarrow> Inl stop
           | Inr (safe'', strings) \<Rightarrow> Inr (safe'', extra' @ strings)))"
  by (induction "is" arbitrary: safe extra) (auto split: sum.splits)

lemma InstallProtectedAPI_one:
  assumes d: "deferErr = None"
      and i: "InstallREST container = (None, installed)"
      and one: "length (currentUserRoutes installed) = 1"
  shows "\<exists>container'.
           InstallProtectedAPI deferErr InstallREST currentUserFilter container =
             Inr (container', [''Started OpenShift API at %s/osapi/v1beta1'']) \<and>
           currentUserRoutes container' =
             map (\<lambda>r. r\<lparr>Filters := Filters r @ [currentUserFilter]\<rparr>)
               (currentUserRoutes installed) \<and>
           (\<forall>j < length installed. rootPath (installed ! j) \<noteq> ''/'' \<longrightarrow>
              container' ! j = scanned currentUserFilter (installed ! j))"
proof -
  from scanWebServices_eq [of currentUserFilter installed 0 None 0] obtain root' where
    scan: "scanWebServices currentUserFilter installed 0 None 0 =
             (map (scanned currentUserFilter) installed, root',
              length (currentUserRoutes installed))"
    and root: "root' = None \<or> (\<exists>r. root' = Some r \<and> r < length installed \<and>
                                   rootPath (installed ! r) = ''/'')"
    by auto
  let ?c2 = "map (scanned currentUserFilter) installed"
  from root show ?thesis
  proof
    assume none: "root' = None"
    let ?c3 = "?c2 @ [newWebService]"
    let ?c' = "?c3[length ?c2 := initAPIVersionRoute (?c3 ! length ?c2) ''v1beta1'']"
    have res: "InstallProtectedAPI deferErr InstallREST currentUserFilter container =
               Inr (?c', [''Started OpenShift API at %s/osapi/v1beta1''])"
      using d i scan one none by (simp add: InstallProtectedAPI_def prefixPath)
    have "rootPath (?c3 ! length ?c2) \<noteq> ''/osapi/v1beta1''"
      by (simp add: newWebService_def nth_append)
    then have "currentUserRoutes ?c' = currentUserRoutes ?c3"
      by (intro currentUserRoutes_update) simp_all
    then have routes: "currentUserRoutes ?c' =
               map (\<lambda>r. r\<lparr>Filters := Filters r @ [currentUserFilter]\<rparr>)
                 (currentUserRoutes installed)"
      by (simp add: currentUserRoutes_append_new currentUserRoutes_scanned)
    have others: "\<forall>j < length installed. rootPath (installed ! j) \<noteq> ''/'' \<longrightarrow>
              ?c' ! j = scanned currentUserFilter (installed ! j)"
      by (simp add: nth_append)
    show ?thesis using res routes others by blast
  next
    assume "\<exists>r. root' = Some r \<and> r < length installed \<and> rootPath (installed ! r) = ''/''"
    then obtain r where r: "root' = Some r" "r < length installed"
      "rootPath (installed ! r) = ''/''" by blast
    let ?c' = "?c2[r := initAPIVersionRoute (?c2 ! r) ''v1beta1'']"
    have res: "InstallProtectedAPI deferErr InstallREST currentUserFilter container =
               Inr (?c', [''Started OpenShift API at %s/osapi/v1beta1''])"
      using d i scan one r by (simp add: InstallProtectedAPI_def prefixPath)
    have "rootPath (?c2 ! r) \<noteq> ''/osapi/v1beta1''"
      using r by (simp add: scanned_rootPath)
    then have "currentUserRoutes ?c' = currentUserRoutes ?c2"
      using r by (intro currentUserRoutes_update) simp_all
    then have routes: "currentUserRoutes ?c' =
               map (\<lambda>r. r\<lparr>Filters := Filters r @ [currentUserFilter]\<rparr>)
                 (currentUserRoutes installed)"
      by (simp add: currentUserRoutes_scanned)
    have others: "\<forall>j < length installed. rootPath (installed ! j) \<noteq> ''/'' \<longrightarrow>
              ?c' ! j = scanned currentUserFilter (installed ! j)"
      using r by (auto simp: nth_list_update)
    show ?thesis using res routes others by blast
  qed
qed

lemma InstallProtectedAPI_not_one:
  assumes d: "deferErr = None"
      and i: "InstallREST container = (None, installed)"
      and n: "length (currentUserRoutes installed) \<noteq> 1"
  shows "InstallProtectedAPI deferErr InstallREST currentUserFilter container =
           Inl CouldNotFindUserRoute"
proof -
  from scanWebServices_eq [of currentUserFilter installed 0 None 0] obtain root' where
    "scanWebServices currentUserFilter installed 0 None 0 =
       (map (scanned currentUserFilter) installed, root', length (currentUserRoutes installed))"
    by auto
  then show ?thesis using d i n by (simp add: InstallProtectedAPI_def)
qed

text \<open>
  Claim C4. With the steps before the scan done without error, \<open>InstallProtectedAPI\<close>
  counts the GET routes on the current-user path among the routes of the web services
  of the versioned API root. When the count is not 1 the result is the fatal call "Could
  not find user route", which ends the process; the loop of \<open>Run\<close> over the protected
  installers ends there, so \<open>Run\<close> never reaches the construction of the server.
  When the count is 1 the installation returns its string, and so does the loop of
  \<open>Run\<close>; the current-user routes of the container it leaves are those it found, each
  with the filter added at the end of its filters, and every web service other than
  those at the root path \<open>/\<close> is as the scan should leave it.
\<close>

theorem InstallProtectedAPI_current_user_route:
  assumes d: "deferErr = None"
      and i: "InstallREST container = (None, installed)"
  shows "(length (currentUserRoutes installed) \<noteq> 1 \<longrightarrow>
            InstallProtectedAPI deferErr InstallREST currentUserFilter container =
              Inl CouldNotFindUserRoute \<and>
            (installAPIs protected [] [] = Inr (container, extra) \<longrightarrow>
               Run_installProtected protected
                 (InstallProtectedAPI deferErr InstallREST currentUserFilter) =
                 Inl CouldNotFindUserRoute)) \<and>
         (length (currentUserRoutes installed) = 1 \<longrightarrow>
            (\<exists>container'.
               InstallProtectedAPI deferErr InstallREST currentUserFilter container =
                 Inr (container', [''Started OpenShift API at %s/osapi/v1beta1'']) \<and>
               (installAPIs protected [] [] = Inr (container, extra) \<longrightarrow>
                  Run_installProtected protected
                    (InstallProtectedAPI deferErr InstallREST currentUserFilter) =
                    Inr (container', extra @ [''Started OpenShift API at %s/osapi/v1beta1''])) \<and>
               currentUserRoutes container' =
                 map (\<lambda>r. r\<lparr>Filters := Filters r @ [currentUserFilter]\<rparr>)
                   (currentUserRoutes installed) \<and>
               (\<forall>j < length installed. rootPath (installed ! j) \<noteq> ''/'' \<longrightarrow>
                  container' ! j = scanned currentUserFilter (installed ! j))))"
proof (intro conjI impI)
  assume n: "length (currentUserRoutes installed) \<noteq> 1"
  show f: "InstallProtectedAPI deferErr InstallREST currentUserFilter container =
        Inl CouldNotFindUserRoute"
    using d i n by (rule InstallProtectedAPI_not_one)
  assume "installAPIs protected [] [] = Inr (container, extra)"
  then show "Run_installProtected protected
          (InstallProtectedAPI deferErr InstallREST currentUserFilter) =
        Inl CouldNotFindUserRoute"
    using f by (simp add: Run_installProtected_def installAPIs_append)
next
  assume one: "length (currentUserRoutes installed) = 1"
  from InstallProtectedAPI_one [where InstallREST = InstallREST and container = container
      and currentUserFilter = currentUserFilter, OF d i one] obtain container' where
    res: "InstallProtectedAPI deferErr InstallREST currentUserFilter container =
             Inr (container', [''Started OpenShift API at %s/osapi/v1beta1''])"
    and routes: "currentUserRoutes container' =
             map (\<lambda>r. r\<lparr>Filters := Filters r @ [currentUserFilter]\<rparr>)
               (currentUserRoutes installed)"
    and others: "\<forall>j < length installed. rootPath (installed ! j) \<noteq> ''/'' \<longrightarrow>
              container' ! j = scanned currentUserFilter (installed ! j)"
    by blast
  have run: "installAPIs protected [] [] = Inr (container, extra) \<longrightarrow>
                  Run_installProtected protected
                    (InstallProtectedAPI deferErr InstallREST currentUserFilter) =
                    Inr (container', extra @ [''Started OpenShift API at %s/osapi/v1beta1''])"
    using res by (simp add: Run_installProtected_def installAPIs_append)
  show "\<exists>container'.
               InstallProtectedAPI deferErr InstallREST currentUserFilter container =
                 Inr (container', [''Started OpenShift API at %s/osapi/v1beta1'']) \<and>
               (installAPIs protected [] [] = Inr (container, extra) \<longrightarrow>
                  Run_installProtected protected
                    (InstallProtectedAPI deferErr InstallREST currentUserFilter) =
                    Inr (container', extra @ [''Started OpenShift API at %s/osapi/v1beta1''])) \<and>
               currentUserRoutes container' =
                 map (\<lambda>r. r\<lparr>Filters := Filters r @ [currentUserFilter]\<rparr>)
                   (currentUserRoutes installed) \<and>
               (\<forall>j < length installed. rootPath (installed ! j) \<noteq> ''/'' \<longrightarrow>
                  container' ! j = scanned currentUserFilter (installed ! j))"
    using res run routes others by blast
qed

theorem InstallProtectedAPI_current_user_route_witness:
  "installNothing [usersService] = (None, [usersService]) \<and>
   length (currentUserRoutes [usersService]) = 1 \<and>
   InstallProtectedAPI None installNothing 7 [usersService] =
     Inr ([\<lparr>rootPath = ''/osapi/v1beta1'',
             documentation = ''OpenShift REST API, version v1beta1'',
             apiVersion = ''v1beta1'',
             routes = [\<lparr>Method = ''GET'', Path = ''/osapi/v1beta1/users/{name}'',
                         Filters = [3, 7]\<rparr>,
                       \<lparr>Method = ''PUT'', Path = ''/osapi/v1beta1/users/{name}'', Filters = []\<rparr>,
                       \<lparr>Method = ''GET'', Path = ''/osapi/v1beta1/builds'', Filters = []\<rparr>]\<rparr>,
           \<lparr>rootPath = [], documentation = [], apiVersion = [],
             routes = [\<lparr>Method = ''GET'', Path = ''/osapi'', Filters = []\<rparr>]\<rparr>],
          [''Started OpenShift API at %s/osapi/v1beta1'']) \<and>
   length (currentUserRoutes [buildsService]) = 0 \<and>
   InstallProtectedAPI None installNothing 7 [buildsService] = Inl CouldNotFindUserRoute \<and>
   length (currentUserRoutes [usersService, usersService]) = 2 \<and>
   InstallProtectedAPI None installNothing 7 [usersService, usersService] =
     Inl CouldNotFindUserRoute \<and>
   Run_installProtected [] (InstallProtectedAPI None installNothing 7) =
     Inl CouldNotFindUserRoute \<and>
   installAPIs [installUsers] [] [] = Inr ([usersService], [''Started the users API'']) \<and>
   (\<exists>container'.
      InstallProtectedAPI None installNothing 7 [usersService] =
        Inr (container', [''Started OpenShift API at %s/osapi/v1beta1'']) \<and>
      Run_installProtected [installUsers] (InstallProtectedAPI None installNothing 7) =
        Inr (container',
             [''Started the users API'', ''Started OpenShift API at %s/osapi/v1beta1'']))"
proof -
  have i1: "installNothing [usersService] = (None, [usersService])"
    and i0: "installNothing [buildsService] = (None, [buildsService])"
    and i2: "installNothing [usersService, usersService] = (None, [usersService, usersService])"
    by (simp_all add: installNothing_def)
  have n1: "length (currentUserRoutes [usersService]) = 1"
    and n0: "length (currentUserRoutes [buildsService]) = 0"
    and n2: "length (currentUserRoutes [usersService, usersService]) = 2"
    by (simp_all add: currentUserRoutes_def usersService_def buildsService_def
        isCurrentUserRoute_def)
  have f0: "InstallProtectedAPI None installNothing 7 [buildsService] = Inl CouldNotFindUserRoute"
    using InstallProtectedAPI_current_user_route [where InstallREST = installNothing
        and container = "[buildsService]" and deferErr = None and currentUserFilter = 7,
        OF refl i0] n0
    by simp
  have f2: "InstallProtectedAPI None installNothing 7 [usersService, usersService] =
            Inl CouldNotFindUserRoute"
    using InstallProtectedAPI_current_user_route [where InstallREST = installNothing
        and container = "[usersService, usersService]" and deferErr = None
        and currentUserFilter = 7, OF refl i2] n2
    by simp
  from InstallProtectedAPI_current_user_route [where InstallREST = installNothing
        and container = "[usersService]" and deferErr = None and currentUserFilter = 7,
        OF refl i1] n1
  obtain container' where
    "InstallProtectedAPI None installNothing 7 [usersService] =
       Inr (container', [''Started OpenShift API at %s/osapi/v1beta1''])"
    by blast
  then have ok: "InstallProtectedAPI None installNothing 7 [usersService] =
     Inr ([\<lparr>rootPath = ''/osapi/v1beta1'',
             documentation = ''OpenShift REST API, version v1beta1'',
             apiVersion = ''v1beta1'',
             routes = [\<lparr>Method = ''GET'', Path = ''/osapi/v1beta1/users/{name}'',
                         Filters = [3, 7]\<rparr>,
                       \<lparr>Method = ''PUT'', Path = ''/osapi/v1beta1/users/{name}'', Filters = []\<rparr>,
                       \<lparr>Method = ''GET'', Path = ''/osapi/v1beta1/builds'', Filters = []\<rparr>]\<rparr>,
           \<lparr>rootPath = [], documentation = [], apiVersion = [],
             routes = [\<lparr>Method = ''GET'', Path = ''/osapi'', Filters = []\<rparr>]\<rparr>],
          [''Started OpenShift API at %s/osapi/v1beta1''])"
    by (simp add: InstallProtectedAPI_def installNothing_def usersService_def
        OpenShiftAPIPrefixV1Beta1_def OpenShiftAPIPrefix_def initAPIVersionRoute_def
        newWebService_def)
  have ie: "installNothing [] = (None, [])" by (simp add: installNothing_def)
  have ne: "length (currentUserRoutes ([] :: nat WebService list)) \<noteq> 1"
    by (simp add: currentUserRoutes_def)
  have pe: "installAPIs [] [] [] = Inr ([] :: nat WebService list, [])" by simp
  have run: "Run_installProtected [] (InstallProtectedAPI None installNothing 7) =
     Inl CouldNotFindUserRoute"
    using InstallProtectedAPI_current_user_route [where InstallREST = installNothing
        and container = "[]" and deferErr = None and currentUserFilter = 7
        and protected = "[]" and extra = "[]", OF refl ie] ne pe
    by blast
  have pu: "installAPIs [installUsers] [] [] = Inr ([usersService], [''Started the users API''])"
    by (simp add: installUsers_def)
  have runok: "\<exists>container'.
      InstallProtectedAPI None installNothing 7 [usersService] =
        Inr (container', [''Started OpenShift API at %s/osapi/v1beta1'']) \<and>
      Run_installProtected [installUsers] (InstallProtectedAPI None installNothing 7) =
        Inr (container',
             [''Started the users API'', ''Started OpenShift API at %s/osapi/v1beta1''])"
    using InstallProtectedAPI_current_user_route [where InstallREST = installNothing
        and container = "[usersService]" and deferErr = None and currentUserFilter = 7
        and protected = "[installUsers]" and extra = "[''Started the users API'']",
        OF refl i1] n1 pu
    by auto
  show ?thesis using i1 n1 ok n0 f0 n2 f2 run pu runok by blast
qed

section \<open>Properties of the handler of the protected container\<close>

lemma getRequestsToUsers_twice:
  "getRequestsToUsers cn = (m, c1, free1) \<Longrightarrow>
   getRequestsToUsers (c1, free1) = (m, c1, free1) \<and> requestsToUsers c1 = Some m"
  by (cases cn) (auto simp: getRequestsToUsers_def split: option.splits)

lemma Run_handler_eq:
  assumes "getRequestsToUsers cn = (m, c1, free1)"
  shows "Run_handler nonASCII B Authorize Authenticator unauthenticated safe cn =
           (authenticationHandlerFilter (authorizationFilter nonASCII (B m) Authorize safe)
              Authenticator m unauthenticated, c1, free1)"
  using assms getRequestsToUsers_twice [OF assms] by (simp add: Run_handler_def)

text \<open>
  Claim C5. The handler that \<open>Run\<close> builds for the protected container is the
  authentication filter around the authorization filter around the container, and both
  filters are built on the one request context map of the configuration. For a request
  that the authenticator accepts, the handler is the authorization filter run in the
  state in which that map holds the user of the request, and the attribute builder is
  consulted in that state only: a builder that agrees with it there gives the same
  outcome. For a request that the authenticator does not accept, the handler is the
  answer of the authentication stage and the authorization filter does not run.
\<close>

theorem Run_handler_authenticates_first:
  assumes run: "Run_handler nonASCII NewAuthorizationAttributeBuilder Authorize Authenticator
                  unauthenticated safe cn = (handler, c', free')"
  shows "\<exists>m. requestsToUsers c' = Some m \<and>
           (\<forall>req w world user.
              Authenticator req = (user, True, None) \<longrightarrow>
                contextMaps (storeUser m req user world) m (reqPtr req) = Some user \<and>
                handler req (w, world) =
                  authorizationFilter nonASCII (NewAuthorizationAttributeBuilder m)
                    Authorize safe req (w, storeUser m req user world) \<and>
                (\<forall>B. B m req (storeUser m req user world) =
                        NewAuthorizationAttributeBuilder m req (storeUser m req user world) \<longrightarrow>
                     fst (Run_handler nonASCII B Authorize Authenticator unauthenticated safe cn)
                       req (w, world) = handler req (w, world))) \<and>
           (\<forall>req w world user ok err.
              Authenticator req = (user, ok, err) \<and> (err \<noteq> None \<or> \<not> ok) \<longrightarrow>
                handler req (w, world) = unauthenticated req (w, world))"
proof -
  obtain m c1 free1 where g1: "getRequestsToUsers cn = (m, c1, free1)"
    by (cases "getRequestsToUsers cn") auto
  have rm: "requestsToUsers c1 = Some m"
    using getRequestsToUsers_twice [OF g1] by simp
  have h: "handler =
             authenticationHandlerFilter
               (authorizationFilter nonASCII (NewAuthorizationAttributeBuilder m) Authorize safe)
               Authenticator m unauthenticated"
    and c': "c' = c1"
    using run by (simp_all add: Run_handler_eq [OF g1])
  have ok: "\<forall>req w world user.
              Authenticator req = (user, True, None) \<longrightarrow>
                contextMaps (storeUser m req user world) m (reqPtr req) = Some user \<and>
                handler req (w, world) =
                  authorizationFilter nonASCII (NewAuthorizationAttributeBuilder m)
                    Authorize safe req (w, storeUser m req user world) \<and>
                (\<forall>B. B m req (storeUser m req user world) =
                        NewAuthorizationAttributeBuilder m req (storeUser m req user world) \<longrightarrow>
                     fst (Run_handler nonASCII B Authorize Authenticator unauthenticated safe cn)
                       req (w, world) = handler req (w, world))"
  proof (intro allI impI conjI)
    fix req w world user
    assume a: "Authenticator req = (user, True, None)"
    show "contextMaps (storeUser m req user world) m (reqPtr req) = Some user"
      by (simp add: storeUser_def)
    show "handler req (w, world) =
            authorizationFilter nonASCII (NewAuthorizationAttributeBuilder m)
              Authorize safe req (w, storeUser m req user world)"
      using a by (simp add: h authenticationHandlerFilter_def)
  next
    fix req w world user B
    assume a: "Authenticator req = (user, True, None)"
      and b: "B m req (storeUser m req user world) =
              NewAuthorizationAttributeBuilder m req (storeUser m req user world)"
    have "fst (Run_handler nonASCII B Authorize Authenticator unauthenticated safe cn)
            req (w, world) =
          authorizationFilter nonASCII (B m) Authorize safe req (w, storeUser m req user world)"
      using a by (simp add: Run_handler_eq [OF g1] authenticationHandlerFilter_def)
    also have "\<dots> = authorizationFilter nonASCII (NewAuthorizationAttributeBuilder m)
                       Authorize safe req (w, storeUser m req user world)"
      using b by (simp add: authorizationFilter_def)
    also have "\<dots> = handler req (w, world)"
      using a by (simp add: h authenticationHandlerFilter_def)
    finally show "fst (Run_handler nonASCII B Authorize Authenticator unauthenticated safe cn)
                    req (w, world) = handler req (w, world)" .
  qed
  have no: "\<forall>req w world user ok err.
              Authenticator req = (user, ok, err) \<and> (err \<noteq> None \<or> \<not> ok) \<longrightarrow>
                handler req (w, world) = unauthenticated req (w, world)"
    by (auto simp: h authenticationHandlerFilter_def)
  show ?thesis using rm c' ok no by blast
qed

theorem Run_handler_authenticates_first_witness:
  "Run_handler noNonASCII userBuilder aliceOnly knowsAlice answer401 answer200
     (exampleConfig, 0) =
     (fst (Run_handler noNonASCII userBuilder aliceOnly knowsAlice answer401 answer200
             (exampleConfig, 0)),
      exampleConfig\<lparr>requestsToUsers := Some 0\<rparr>, 1) \<and>
   knowsAlice buildsRequest = (''alice'', True, None) \<and>
   userBuilder 0 buildsRequest noMaps =
     ((None, Some (OtherError ''no user for the request'')), noMaps) \<and>
   fst (fst (Run_handler noNonASCII userBuilder aliceOnly knowsAlice answer401 answer200
               (exampleConfig, 0)) buildsRequest (freshWriter, noMaps)) =
     \<lparr>wroteHeader = True, status = 200, body = []\<rparr> \<and>
   knowsAlice quoteRequest = ([], False, None) \<and>
   fst (fst (Run_handler noNonASCII userBuilder aliceOnly knowsAlice answer401 answer200
               (exampleConfig, 0)) quoteRequest (freshWriter, noMaps)) =
     \<lparr>wroteHeader = True, status = 401, body = []\<rparr> \<and>
   lenientBuilder 0 buildsRequest noMaps \<noteq> userBuilder 0 buildsRequest noMaps \<and>
   fst (Run_handler noNonASCII lenientBuilder aliceOnly knowsAlice answer401 answer200
          (exampleConfig, 0)) buildsRequest (freshWriter, noMaps) =
   fst (Run_handler noNonASCII userBuilder aliceOnly knowsAlice answer401 answer200
          (exampleConfig, 0)) buildsRequest (freshWriter, noMaps)"
proof -
  let ?h = "fst (Run_handler noNonASCII userBuilder aliceOnly knowsAlice answer401 answer200
                   (exampleConfig, 0))"
  have run: "Run_handler noNonASCII userBuilder aliceOnly knowsAlice answer401 answer200
     (exampleConfig, 0) = (?h, exampleConfig\<lparr>requestsToUsers := Some 0\<rparr>, 1)"
    by (simp add: Run_handler_def getRequestsToUsers_def exampleConfig_def)
  have ka: "knowsAlice buildsRequest = (''alice'', True, None)"
    by (simp add: knowsAlice_def buildsRequest_def)
  have kq: "knowsAlice quoteRequest = ([], False, None)"
    by (simp add: knowsAlice_def quoteRequest_def)
  have ub: "userBuilder 0 buildsRequest noMaps =
     ((None, Some (OtherError ''no user for the request'')), noMaps)"
    by (simp add: userBuilder_def noMaps_def)
  from Run_handler_authenticates_first [OF run] obtain m where
    m: "requestsToUsers (exampleConfig\<lparr>requestsToUsers := Some 0\<rparr>) = Some m"
    and ok: "\<forall>req w world user.
              knowsAlice req = (user, True, None) \<longrightarrow>
                contextMaps (storeUser m req user world) m (reqPtr req) = Some user \<and>
                ?h req (w, world) =
                  authorizationFilter noNonASCII (userBuilder m) aliceOnly answer200 req
                    (w, storeUser m req user world)"
    and no: "\<forall>req w world user ok err.
              knowsAlice req = (user, ok, err) \<and> (err \<noteq> None \<or> \<not> ok) \<longrightarrow>
                ?h req (w, world) = answer401 req (w, world)"
    and agree: "\<forall>req w world user B.
              knowsAlice req = (user, True, None) \<and>
              B m req (storeUser m req user world) = userBuilder m req (storeUser m req user world)
              \<longrightarrow>
                fst (Run_handler noNonASCII B aliceOnly knowsAlice answer401 answer200
                       (exampleConfig, 0)) req (w, world) = ?h req (w, world)"
    by blast
  have m0: "m = 0" using m by simp
  have differ: "lenientBuilder 0 buildsRequest noMaps \<noteq> userBuilder 0 buildsRequest noMaps"
    by (simp add: lenientBuilder_def userBuilder_def noMaps_def)
  have same: "lenientBuilder 0 buildsRequest (storeUser 0 buildsRequest ''alice'' noMaps) =
              userBuilder 0 buildsRequest (storeUser 0 buildsRequest ''alice'' noMaps)"
    by (simp add: lenientBuilder_def userBuilder_def storeUser_def)
  have lenient: "fst (Run_handler noNonASCII lenientBuilder aliceOnly knowsAlice answer401
                        answer200 (exampleConfig, 0)) buildsRequest (freshWriter, noMaps) =
                 ?h buildsRequest (freshWriter, noMaps)"
    using agree ka same m0 by blast
  have "?h buildsRequest (freshWriter, noMaps) =
          authorizationFilter noNonASCII (userBuilder 0) aliceOnly answer200 buildsRequest
            (freshWriter, storeUser 0 buildsRequest ''alice'' noMaps)"
    using ok ka m0 by blast
  then have a: "fst (?h buildsRequest (freshWriter, noMaps)) =
                \<lparr>wroteHeader = True, status = 200, body = []\<rparr>"
    by (simp add: authorizationFilter_def userBuilder_def storeUser_def aliceOnly_def
        answer200_def WriteHeader_def freshWriter_def buildsRequest_def noMaps_def)
  have "?h quoteRequest (freshWriter, noMaps) = answer401 quoteRequest (freshWriter, noMaps)"
    using no kq by blast
  then have b: "fst (?h quoteRequest (freshWriter, noMaps)) =
                \<lparr>wroteHeader = True, status = 401, body = []\<rparr>"
    by (simp add: answer401_def WriteHeader_def freshWriter_def)
  show ?thesis using run ka ub a kq b differ lenient by blast
qed

end
